theory Spec2Isabelle
  imports Complex_Main "HOL-Library.Sublist"
begin

section \<open>JavaScript values used by the product service\<close>

text \<open>
  The product service exists in two variants: an in-memory one (a module-level array
  \<open>products\<close>) and a persisted one (\<open>services/product-service/server.js\<close>, a
  PostgreSQL table reached through a connection pool, with the schema of the
  repository's SQL initialisation script). Both are embedded below.

  Conventions of the embedding.
  \<^item> A JavaScript number is a \<open>jsnum\<close>: \<open>NaN\<close>, the two infinities, or a finite value
    \<open>Fin q\<close> with \<open>q\<close> the exact rational it denotes. The range of the binary
    format is modelled (\<open>double_of\<close>: a literal too large reads as an infinity, one too
    small as \<open>0\<close>); the rounding of a literal to the nearest binary number and the
    distinction of \<open>-0\<close> from \<open>0\<close> are not.
  \<^item> Strings are lists of characters; case conversion covers the ASCII letters and
    white space is the ASCII white space.
  \<^item> A request body, once parsed, is a \<open>productData\<close>: each of the five product
    fields is absent (\<open>None\<close>, JavaScript's \<open>undefined\<close>) or holds a value: a
    string for name, description and category, and any JSON value (type \<open>jsval\<close>)
    for price and stock, the two fields the service tests and converts with
    \<open>parseFloat\<close> and \<open>parseInt\<close>. Names, descriptions and categories that are not
    strings, and bodies that are not JSON objects, are outside the embedding.
    \<open>JSON.parse\<close> itself is the platform's and is a parameter \<open>parse\<close> (\<open>None\<close>
    stands for the \<open>SyntaxError\<close>).
  \<^item> A query parameter is absent or a string (repeated parameters, which Node's
    \<open>url.parse\<close> delivers as arrays, are outside the embedding).
  \<^item> Time is a parameter \<open>now\<close> (a \<open>nat\<close>): the value of \<open>new Date()\<close> or of
    \<open>CURRENT_TIMESTAMP\<close> during the request.
  \<^item> The CORS and content-type headers are the same on every response and are left out.
\<close>

datatype jsnum = NaN | NegInf | Fin rat | PosInf

text \<open>\<open>a <= b\<close> on numbers: every comparison with \<open>NaN\<close> is false.\<close>

fun js_le :: "jsnum \<Rightarrow> jsnum \<Rightarrow> bool" where
  "js_le NaN b = False"
| "js_le a NaN = False"
| "js_le NegInf b = True"
| "js_le a PosInf = True"
| "js_le (Fin x) (Fin y) = (x \<le> y)"
| "js_le PosInf b = False"
| "js_le a NegInf = False"

definition js_ge :: "jsnum \<Rightarrow> jsnum \<Rightarrow> bool" where
  "js_ge a b = js_le b a"

text \<open>\<open>a === b\<close> on numbers.\<close>

definition js_eq :: "jsnum \<Rightarrow> jsnum \<Rightarrow> bool" where
  "js_eq a b = (a \<noteq> NaN \<and> a = b)"

text \<open>Truthiness of a number: \<open>0\<close> and \<open>NaN\<close> are falsy.\<close>

fun truthy_num :: "jsnum \<Rightarrow> bool" where
  "truthy_num NaN = False"
| "truthy_num (Fin q) = (q \<noteq> 0)"
| "truthy_num NegInf = True"
| "truthy_num PosInf = True"

text \<open>\<open>a || b\<close> on numbers.\<close>

definition js_or :: "jsnum \<Rightarrow> jsnum \<Rightarrow> jsnum" where
  "js_or a b = (if truthy_num a then a else b)"

text \<open>\<open>a + 1\<close>.\<close>

fun js_succ :: "jsnum \<Rightarrow> jsnum" where
  "js_succ (Fin q) = Fin (q + 1)"
| "js_succ a = a"

text \<open>\<open>Math.max(...xs)\<close>: \<open>-Infinity\<close> for no arguments, \<open>NaN\<close> if any argument is.\<close>

definition js_max :: "jsnum \<Rightarrow> jsnum \<Rightarrow> jsnum" where
  "js_max a b = (if js_le a b then b else a)"

definition Math_max :: "jsnum list \<Rightarrow> jsnum" where
  "Math_max xs = (if NaN \<in> set xs then NaN else fold js_max xs NegInf)"

subsection \<open>Strings\<close>

text \<open>Truthiness of an optional string or number: \<open>undefined\<close>, \<open>''\<close> and \<open>0\<close> are falsy.\<close>

fun truthy_str :: "string option \<Rightarrow> bool" where
  "truthy_str None = False"
| "truthy_str (Some s) = (s \<noteq> [])"

definition lower_char :: "char \<Rightarrow> char" where
  "lower_char c =
     (case map_of (zip ''ABCDEFGHIJKLMNOPQRSTUVWXYZ'' ''abcdefghijklmnopqrstuvwxyz'') c of
        Some d \<Rightarrow> d
      | None \<Rightarrow> c)"

definition toLowerCase :: "string \<Rightarrow> string" where
  "toLowerCase s = map lower_char s"

text \<open>\<open>hay.includes(needle)\<close>: the needle occurs in the string as a contiguous substring.\<close>

fun str_includes :: "string \<Rightarrow> string \<Rightarrow> bool" where
  "str_includes [] needle = (needle = [])"
| "str_includes (c # cs) needle = (prefix needle (c # cs) \<or> str_includes cs needle)"

definition is_digit :: "char \<Rightarrow> bool" where
  "is_digit c = (c \<in> set ''0123456789'')"

definition digit_val :: "char \<Rightarrow> nat" where
  "digit_val c = of_char c - 48"

definition digits_val :: "string \<Rightarrow> nat" where
  "digits_val ds = foldl (\<lambda>n c. 10 * n + digit_val c) 0 ds"

definition is_space :: "char \<Rightarrow> bool" where
  "is_space c = (c \<in> set [CHR '' '', CHR 0x09, CHR 0x0A, CHR 0x0B, CHR 0x0C, CHR 0x0D])"

text \<open>
  \<open>parseFloat\<close> on a string: leading white space is skipped, then the longest prefix
  that is a decimal literal (sign, digits, fraction, exponent, or \<open>Infinity\<close>) is read;
  \<open>NaN\<close> if there is none.
\<close>

definition exponent_part :: "string \<Rightarrow> int" where
  "exponent_part s =
     (case s of
        [] \<Rightarrow> 0
      | c # r \<Rightarrow>
          if c = CHR ''e'' \<or> c = CHR ''E'' then
            (case r of
               [] \<Rightarrow> 0
             | d # r' \<Rightarrow>
                 if d = CHR ''-'' then - int (digits_val (takeWhile is_digit r'))
                 else if d = CHR ''+'' then int (digits_val (takeWhile is_digit r'))
                 else int (digits_val (takeWhile is_digit r)))
          else 0)"

definition scale10 :: "rat \<Rightarrow> int \<Rightarrow> rat" where
  "scale10 m e = (if 0 \<le> e then m * 10 ^ nat e else m / 10 ^ nat (- e))"

text \<open>
  The number a decimal literal reads as, as far as the range goes: from
  \<open>2^1024 - 2^970\<close> on (half a step above the largest finite number) an infinity, up
  to \<open>2^-1075\<close> (half the smallest positive number) zero.
\<close>

definition double_of :: "rat \<Rightarrow> jsnum" where
  "double_of q =
     (if 2 ^ 1024 - 2 ^ 970 \<le> \<bar>q\<bar> then (if q < 0 then NegInf else PosInf)
      else if \<bar>q\<bar> \<le> 1 / 2 ^ 1075 then Fin 0
      else Fin q)"

definition str_decimal :: "string \<Rightarrow> jsnum" where
  "str_decimal s =
     (let ip = takeWhile is_digit s;
          r1 = dropWhile is_digit s;
          dot = (r1 \<noteq> [] \<and> hd r1 = CHR ''.'');
          fp = (if dot then takeWhile is_digit (tl r1) else []);
          r2 = (if dot then dropWhile is_digit (tl r1) else r1)
      in if ip = [] \<and> fp = [] then NaN
         else double_of (scale10
                (of_nat (digits_val ip) + of_nat (digits_val fp) / 10 ^ length fp)
                (exponent_part r2)))"

definition str_unsigned :: "string \<Rightarrow> jsnum" where
  "str_unsigned s = (if prefix ''Infinity'' s then PosInf else str_decimal s)"

fun js_neg :: "jsnum \<Rightarrow> jsnum" where
  "js_neg (Fin q) = Fin (- q)"
| "js_neg PosInf = NegInf"
| "js_neg NegInf = PosInf"
| "js_neg NaN = NaN"

definition parseFloat :: "string \<Rightarrow> jsnum" where
  "parseFloat s =
     (case dropWhile is_space s of
        [] \<Rightarrow> NaN
      | c # r \<Rightarrow>
          if c = CHR ''-'' then js_neg (str_unsigned r)
          else if c = CHR ''+'' then str_unsigned r
          else str_unsigned (c # r))"

subsection \<open>Values of a body field\<close>

text \<open>
  What \<open>JSON.parse\<close> leaves in the \<open>price\<close> or the \<open>stock\<close> property of a body:
  \<open>null\<close>, a boolean, a number, a string, or an array or object. A number is the
  value \<open>JSON.parse\<close> has read the literal as: never \<open>NaN\<close>, an infinity for a
  literal such as \<open>1e400\<close>, and \<open>0\<close> for one such as \<open>1e-400\<close>. The service
  uses an array or object only through the string JavaScript converts it to, the elements
  joined by commas or \<open>[object Object]\<close>, and \<open>JCompound\<close> holds that string.
  (An object with a property named \<open>toString\<close> or \<open>valueOf\<close>, which has no such
  string, is outside the embedding.)
\<close>

datatype jsval = JNull | JBoolean bool | JNumber jsnum | JString string | JCompound string

text \<open>
  Truthiness of a value: \<open>null\<close>, \<open>false\<close>, \<open>0\<close>, \<open>NaN\<close> and \<open>''\<close> are
  falsy; every array and object is truthy.
\<close>

fun truthy_val :: "jsval \<Rightarrow> bool" where
  "truthy_val JNull = False"
| "truthy_val (JBoolean b) = b"
| "truthy_val (JNumber x) = truthy_num x"
| "truthy_val (JString s) = (s \<noteq> [])"
| "truthy_val (JCompound s) = True"

text \<open>
  The conversion of a string to a number that \<open><=\<close> applies to a string operand
  (\<open>StringToNumber\<close>): white space at both ends is dropped; the empty string is \<open>0\<close>;
  otherwise the whole string has to be a decimal literal (sign, digits, fraction,
  exponent, or \<open>Infinity\<close>) or an unsigned binary, octal or hexadecimal integer literal,
  and is \<open>NaN\<close> if it is not.
\<close>

definition hex_digit_val :: "char \<Rightarrow> nat option" where
  "hex_digit_val c =
     map_of (zip ''0123456789abcdef'' [0..<16] @ zip ''ABCDEF'' [10..<16]) c"

definition is_radix_digit :: "nat \<Rightarrow> char \<Rightarrow> bool" where
  "is_radix_digit r c = (case hex_digit_val c of None \<Rightarrow> False | Some v \<Rightarrow> v < r)"

definition radix_val :: "nat \<Rightarrow> string \<Rightarrow> nat" where
  "radix_val r ds = foldl (\<lambda>n c. r * n + the (hex_digit_val c)) 0 ds"

definition radix_literal :: "nat \<Rightarrow> string \<Rightarrow> jsnum" where
  "radix_literal r ds =
     (if ds \<noteq> [] \<and> list_all (is_radix_digit r) ds then double_of (of_nat (radix_val r ds))
      else NaN)"

definition all_digits :: "string \<Rightarrow> int option" where
  "all_digits ds = (if ds \<noteq> [] \<and> list_all is_digit ds then Some (int (digits_val ds)) else None)"

definition exponent_literal :: "string \<Rightarrow> int option" where
  "exponent_literal s =
     (case s of
        [] \<Rightarrow> Some 0
      | c # r \<Rightarrow>
          if c = CHR ''e'' \<or> c = CHR ''E'' then
            (case r of
               [] \<Rightarrow> None
             | d # r' \<Rightarrow>
                 if d = CHR ''-'' then map_option uminus (all_digits r')
                 else if d = CHR ''+'' then all_digits r'
                 else all_digits r)
          else None)"

definition decimal_literal :: "string \<Rightarrow> jsnum" where
  "decimal_literal s =
     (if s = ''Infinity'' then PosInf
      else
        (let ip = takeWhile is_digit s;
             r1 = dropWhile is_digit s;
             dot = (r1 \<noteq> [] \<and> hd r1 = CHR ''.'');
             fp = (if dot then takeWhile is_digit (tl r1) else []);
             r2 = (if dot then dropWhile is_digit (tl r1) else r1)
         in if ip = [] \<and> fp = [] then NaN
            else (case exponent_literal r2 of
                    None \<Rightarrow> NaN
                  | Some ex \<Rightarrow>
                      double_of (scale10
                        (of_nat (digits_val ip) + of_nat (digits_val fp) / 10 ^ length fp)
                        ex))))"

definition str_trim :: "string \<Rightarrow> string" where
  "str_trim s = rev (dropWhile is_space (rev (dropWhile is_space s)))"

definition StringToNumber :: "string \<Rightarrow> jsnum" where
  "StringToNumber s =
     (case str_trim s of
        [] \<Rightarrow> Fin 0
      | c # r \<Rightarrow>
          if take 2 (c # r) = ''0x'' \<or> take 2 (c # r) = ''0X'' then radix_literal 16 (tl r)
          else if take 2 (c # r) = ''0o'' \<or> take 2 (c # r) = ''0O'' then radix_literal 8 (tl r)
          else if take 2 (c # r) = ''0b'' \<or> take 2 (c # r) = ''0B'' then radix_literal 2 (tl r)
          else if c = CHR ''-'' then js_neg (decimal_literal r)
          else if c = CHR ''+'' then decimal_literal r
          else decimal_literal (c # r))"

text \<open>
  The conversion \<open><=\<close> applies to an operand that is compared with a number; an array
  or object is converted to its string first.
\<close>

fun ToNumber :: "jsval \<Rightarrow> jsnum" where
  "ToNumber JNull = Fin 0"
| "ToNumber (JBoolean b) = Fin (if b then 1 else 0)"
| "ToNumber (JNumber x) = x"
| "ToNumber (JString s) = StringToNumber s"
| "ToNumber (JCompound s) = StringToNumber s"

text \<open>
  \<open>parseFloat(v)\<close> converts its argument to a string and reads that: \<open>undefined\<close>,
  \<open>null\<close> and the booleans give \<open>NaN\<close>, a number gives itself, a string is read by
  \<open>parseFloat\<close> above.
\<close>

fun parseFloat_val :: "jsval option \<Rightarrow> jsnum" where
  "parseFloat_val None = NaN"
| "parseFloat_val (Some JNull) = NaN"
| "parseFloat_val (Some (JBoolean b)) = NaN"
| "parseFloat_val (Some (JNumber x)) = x"
| "parseFloat_val (Some (JString s)) = parseFloat s"
| "parseFloat_val (Some (JCompound s)) = parseFloat s"

text \<open>
  \<open>parseInt(s)\<close> on a string, without a radix: leading white space is skipped, then a
  sign, then the longest run of digits is read, hexadecimal ones after \<open>0x\<close>; \<open>NaN\<close>
  if there is no digit.
\<close>

definition parseInt_digits_of :: "string \<Rightarrow> jsnum" where
  "parseInt_digits_of u =
     (if take 2 u = ''0x'' \<or> take 2 u = ''0X'' then
        (let ds = takeWhile (is_radix_digit 16) (drop 2 u)
         in if ds = [] then NaN else double_of (of_nat (radix_val 16 ds)))
      else
        (let ds = takeWhile is_digit u
         in if ds = [] then NaN else double_of (of_nat (digits_val ds))))"

definition parseInt_str :: "string \<Rightarrow> jsnum" where
  "parseInt_str s =
     (case dropWhile is_space s of
        [] \<Rightarrow> NaN
      | c # r \<Rightarrow>
          if c = CHR ''-'' then js_neg (parseInt_digits_of r)
          else if c = CHR ''+'' then parseInt_digits_of r
          else parseInt_digits_of (c # r))"

text \<open>
  \<open>parseInt(x)\<close> on a number reads the string the number is written as. From \<open>1e-6\<close>
  up to, but not including, \<open>1e21\<close> a number is written in positional notation, and
  \<open>parseInt\<close> reads the digits before the point: the number truncated toward zero.
  Smaller and larger magnitudes are written as \<open>d.ddde-7\<close> or \<open>d.ddde+21\<close>, and
  \<open>parseInt\<close> reads the one digit before the point: the first significant digit of the
  number, with its sign. \<open>NaN\<close> and the infinities are written as words and give
  \<open>NaN\<close>.
\<close>

definition js_trunc :: "rat \<Rightarrow> int" where
  "js_trunc q = (if 0 \<le> q then \<lfloor>q\<rfloor> else \<lceil>q\<rceil>)"

function first_digit :: "int \<Rightarrow> int" where
  "first_digit n = (if n < 10 then n else first_digit (n div 10))"
  by pat_completeness auto

termination
  by (relation "measure nat") auto

declare first_digit.simps [simp del]

function first_significant :: "rat \<Rightarrow> int" where
  "first_significant x =
     (if 0 < x \<and> x < 1 then first_significant (x * 10) else first_digit \<lfloor>x\<rfloor>)"
  by pat_completeness auto

termination
proof (relation "measure (\<lambda>x. nat \<lfloor>1 / x\<rfloor>)")
  show "wf (measure (\<lambda>x :: rat. nat \<lfloor>1 / x\<rfloor>))" by (rule wf_measure)
next
  fix x :: rat
  assume a: "0 < x \<and> x < 1"
  define y where "y = 1 / x"
  from a have "1 < y" by (simp add: y_def field_simps)
  then have fl: "1 \<le> \<lfloor>y\<rfloor>" by linarith
  have "y < of_int \<lfloor>y\<rfloor> + 1" by linarith
  also have "\<dots> \<le> 10 * of_int \<lfloor>y\<rfloor>" using fl by linarith
  finally have "y / 10 < of_int \<lfloor>y\<rfloor>" by linarith
  then have "\<lfloor>y / 10\<rfloor> < \<lfloor>y\<rfloor>" by (simp only: floor_less_iff)
  with fl have less: "nat \<lfloor>y / 10\<rfloor> < nat \<lfloor>y\<rfloor>" by linarith
  have "1 / (x * 10) = y / 10" by (simp add: y_def field_simps)
  with less have "nat \<lfloor>1 / (x * 10)\<rfloor> < nat \<lfloor>1 / x\<rfloor>" by (simp only: y_def)
  then show "(x * 10, x) \<in> measure (\<lambda>x. nat \<lfloor>1 / x\<rfloor>)"
    by (simp only: in_measure)
qed

declare first_significant.simps [simp del]

definition parseInt_rat :: "rat \<Rightarrow> int" where
  "parseInt_rat q =
     (if q = 0 then 0
      else if 1 / 10 ^ 6 \<le> \<bar>q\<bar> \<and> \<bar>q\<bar> < 10 ^ 21 then js_trunc q
      else if q < 0 then - first_significant (- q)
      else first_significant q)"

fun parseInt_num :: "jsnum \<Rightarrow> jsnum" where
  "parseInt_num (Fin q) = Fin (of_int (parseInt_rat q))"
| "parseInt_num x = NaN"

text \<open>
  \<open>parseInt(v)\<close> on a body field: \<open>undefined\<close>, \<open>null\<close> and the booleans are written
  as words and give \<open>NaN\<close>.
\<close>

fun parseInt :: "jsval option \<Rightarrow> jsnum" where
  "parseInt None = NaN"
| "parseInt (Some JNull) = NaN"
| "parseInt (Some (JBoolean b)) = NaN"
| "parseInt (Some (JNumber x)) = parseInt_num x"
| "parseInt (Some (JString s)) = parseInt_str s"
| "parseInt (Some (JCompound s)) = parseInt_str s"

text \<open>\<open>parseInt\<close> on the digits captured by the route pattern \<open>(\d+)\<close>.\<close>

definition parseInt_digits :: "string \<Rightarrow> nat" where
  "parseInt_digits ds = digits_val ds"

subsection \<open>Requests and responses\<close>

record productData =
  b_name :: "string option"
  b_description :: "string option"
  b_price :: "jsval option"
  b_category :: "string option"
  b_stock :: "jsval option"

definition empty_body :: productData where
  "empty_body = \<lparr>b_name = None, b_description = None, b_price = None,
                  b_category = None, b_stock = None\<rparr>"

record filters =
  q_category :: "string option"
  q_minPrice :: "string option"
  q_maxPrice :: "string option"

text \<open>
  A request as the listener reads it: \<open>req.method\<close>, and the path and the query of
  \<open>url.parse(req.url, true)\<close>, with the body as buffered by \<open>parseBody\<close>.
\<close>

record request =
  http_method :: string
  pathname :: string
  query :: filters
  body_text :: string

text \<open>
  JSON documents written by \<open>JSON.stringify\<close>. \<open>JNum\<close> is a number (written as
  \<open>null\<close> when it is \<open>NaN\<close> or an infinity), \<open>JTime\<close> a time stamp, and
  \<open>JDecimal\<close> a string: the decimal text PostgreSQL writes for a \<open>numeric\<close> or
  \<open>bigint\<close> value, which node-postgres hands over unparsed.
\<close>

datatype jv =
    JBool bool
  | JNum jsnum
  | JStr string
  | JDecimal jsnum
  | JTime nat
  | JArr "jv list"
  | JObj "(string \<times> jv) list"

text \<open>
  A response: the status of \<open>res.writeHead\<close> and the object given to \<open>res.end\<close> as a
  list of its properties in order (\<open>None\<close> for \<open>res.end()\<close> without a body).
\<close>

record response =
  status :: nat
  json :: "(string \<times> jv) list option"

definition respond :: "nat \<Rightarrow> (string \<times> jv) list \<Rightarrow> response" where
  "respond code obj = \<lparr>status = code, json = Some obj\<rparr>"

definition error_envelope :: "string \<Rightarrow> (string \<times> jv) list" where
  "error_envelope msg = [(''success'', JBool False), (''error'', JStr msg)]"

text \<open>Whether a response has the shape \<open>{success: false, error: <string>, ...}\<close>.\<close>

definition is_error_envelope :: "response \<Rightarrow> bool" where
  "is_error_envelope res =
     (case json res of
        Some ((k1, JBool False) # (k2, JStr msg) # rest) \<Rightarrow> k1 = ''success'' \<and> k2 = ''error''
      | _ \<Rightarrow> False)"

text \<open>
  \<open>parseBody\<close>: the buffered body is parsed unless it is empty, in which case the
  callback receives \<open>{}\<close>; a parse error is passed to the callback as \<open>err\<close> (\<open>Inl\<close>).
  The function is the same in both variants.
\<close>

definition parseBody :: "(string \<Rightarrow> productData option) \<Rightarrow> string \<Rightarrow> unit + productData" where
  "parseBody parse body =
     (if body \<noteq> [] then (case parse body of None \<Rightarrow> Inl () | Some parsed \<Rightarrow> Inr parsed)
      else Inr empty_body)"

text \<open>
  The route pattern \<open>/^\/api\/products\/(\d+)$/\<close>: the digits captured, if the path
  matches.
\<close>

definition productIdMatch :: "string \<Rightarrow> string option" where
  "productIdMatch p =
     (let ds = drop 14 p
      in if take 14 p = ''/api/products/'' \<and> ds \<noteq> [] \<and> list_all is_digit ds
         then Some ds else None)"

text \<open>
  The test \<open>productIdMatch && method === m\<close> together with
  \<open>parseInt(productIdMatch[1])\<close>: the product id when the route applies.
\<close>

definition id_route :: "string \<Rightarrow> request \<Rightarrow> nat option" where
  "id_route m req =
     (case productIdMatch (pathname req) of
        None \<Rightarrow> None
      | Some ds \<Rightarrow> if http_method req = m then Some (parseInt_digits ds) else None)"

text \<open>The response of the last statement of both handlers: no route matched.\<close>

definition route_not_found :: "request \<Rightarrow> response" where
  "route_not_found req =
     respond 404 [(''error'', JStr ''Route not found''),
                  (''path'', JStr (pathname req)),
                  (''method'', JStr (http_method req))]"

section \<open>The in-memory variant\<close>

text \<open>
  The module-level array \<open>products\<close> holds objects with the seven properties below;
  the object literal of the POST handler writes no \<open>updatedAt\<close>.
\<close>

record product =
  p_id :: jsnum
  p_name :: string
  p_description :: string
  p_price :: jsnum
  p_category :: string
  p_stock :: jsnum
  p_createdAt :: nat

text \<open>The sample data the array starts with; \<open>t0\<close> is the time the module was loaded.\<close>

definition sample_products :: "nat \<Rightarrow> product list" where
  "sample_products t0 =
     [\<lparr>p_id = Fin 1, p_name = ''Gaming Laptop Pro'',
       p_description = ''High-performance gaming laptop with RTX graphics'',
       p_price = Fin (129999 / 100), p_category = ''Electronics'', p_stock = Fin 15,
       p_createdAt = t0\<rparr>,
      \<lparr>p_id = Fin 2, p_name = ''Wireless Headphones'',
       p_description = ''Premium noise-cancelling wireless headphones'',
       p_price = Fin (24999 / 100), p_category = ''Audio'', p_stock = Fin 30,
       p_createdAt = t0\<rparr>,
      \<lparr>p_id = Fin 3, p_name = ''Smart Watch'',
       p_description = ''Fitness tracking smartwatch with heart rate monitor'',
       p_price = Fin (19999 / 100), p_category = ''Wearables'', p_stock = Fin 25,
       p_createdAt = t0\<rparr>]"

text \<open>\<open>JSON.stringify\<close> of a product: its own properties, in the order of the literal.\<close>

definition product_json :: "product \<Rightarrow> jv" where
  "product_json p =
     JObj [(''id'', JNum (p_id p)), (''name'', JStr (p_name p)),
           (''description'', JStr (p_description p)), (''price'', JNum (p_price p)),
           (''category'', JStr (p_category p)), (''stock'', JNum (p_stock p)),
           (''createdAt'', JTime (p_createdAt p))]"

text \<open>The three successive \<open>filter\<close> calls of the GET \<open>/api/products\<close> handler.\<close>

definition filter_category :: "string option \<Rightarrow> product list \<Rightarrow> product list" where
  "filter_category c ps =
     (case c of
        None \<Rightarrow> ps
      | Some cat \<Rightarrow>
          if cat = [] then ps
          else filter (\<lambda>product.
                 str_includes (toLowerCase (p_category product)) (toLowerCase cat)) ps)"

definition filter_minPrice :: "string option \<Rightarrow> product list \<Rightarrow> product list" where
  "filter_minPrice m ps =
     (case m of
        None \<Rightarrow> ps
      | Some minPrice \<Rightarrow>
          if minPrice = [] then ps
          else filter (\<lambda>product. js_ge (p_price product) (parseFloat minPrice)) ps)"

definition filter_maxPrice :: "string option \<Rightarrow> product list \<Rightarrow> product list" where
  "filter_maxPrice m ps =
     (case m of
        None \<Rightarrow> ps
      | Some maxPrice \<Rightarrow>
          if maxPrice = [] then ps
          else filter (\<lambda>product. js_le (p_price product) (parseFloat maxPrice)) ps)"

definition filteredProducts :: "filters \<Rightarrow> product list \<Rightarrow> product list" where
  "filteredProducts q ps =
     filter_maxPrice (q_maxPrice q) (filter_minPrice (q_minPrice q)
       (filter_category (q_category q) ps))"

definition mem_list :: "filters \<Rightarrow> product list \<Rightarrow> response" where
  "mem_list q ps =
     respond 200 [(''success'', JBool True),
                  (''count'', JNum (Fin (of_nat (length (filteredProducts q ps))))),
                  (''data'', JArr (map product_json (filteredProducts q ps)))]"

text \<open>GET \<open>/api/products/{id}\<close>: \<open>products.find(p => p.id === id)\<close>.\<close>

definition mem_find :: "nat \<Rightarrow> product list \<Rightarrow> product option" where
  "mem_find ident ps = find (\<lambda>p. js_eq (p_id p) (Fin (of_nat ident))) ps"

definition mem_get :: "nat \<Rightarrow> product list \<Rightarrow> response" where
  "mem_get ident ps =
     (case mem_find ident ps of
        None \<Rightarrow> respond 404 (error_envelope ''Product not found'')
      | Some product \<Rightarrow> respond 200 [(''success'', JBool True), (''data'', product_json product)])"

text \<open>
  The presence test \<open>!name || !price || !category\<close> of both POST handlers: the three
  values when each is truthy.
\<close>

definition required_fields :: "productData \<Rightarrow> (string \<times> jsval \<times> string) option" where
  "required_fields b =
     (case (b_name b, b_price b, b_category b) of
        (Some name, Some price, Some category) \<Rightarrow>
          if name = [] \<or> \<not> truthy_val price \<or> category = [] then None
          else Some (name, price, category)
      | _ \<Rightarrow> None)"

text \<open>\<open>description || ''\<close>.\<close>

fun or_empty :: "string option \<Rightarrow> string" where
  "or_empty None = []"
| "or_empty (Some s) = s"

text \<open>The object literal \<open>newProduct\<close> of the POST handler.\<close>

definition newProduct :: "nat \<Rightarrow> productData \<Rightarrow> string \<Rightarrow> jsval \<Rightarrow> string \<Rightarrow> product list \<Rightarrow> product" where
  "newProduct now b name price category ps =
     \<lparr>p_id = js_succ (Math_max (map p_id ps)),
      p_name = name,
      p_description = or_empty (b_description b),
      p_price = parseFloat_val (Some price),
      p_category = category,
      p_stock = js_or (parseInt (b_stock b)) (Fin 0),
      p_createdAt = now\<rparr>"

definition mem_post ::
  "(string \<Rightarrow> productData option) \<Rightarrow> nat \<Rightarrow> string \<Rightarrow> product list \<Rightarrow> response \<times> product list" where
  "mem_post parse now text ps =
     (case parseBody parse text of
        Inl err \<Rightarrow> (respond 400 (error_envelope ''Invalid JSON''), ps)
      | Inr b \<Rightarrow>
          (case required_fields b of
             None \<Rightarrow> (respond 400 (error_envelope ''Name, price, and category are required''), ps)
           | Some (name, price, category) \<Rightarrow>
               (respond 201 [(''success'', JBool True),
                             (''data'', product_json (newProduct now b name price category ps))],
                ps @ [newProduct now b name price category ps])))"

text \<open>
  The request listener of the in-memory variant: the response and the array afterwards.
\<close>

definition mem_server ::
  "(string \<Rightarrow> productData option) \<Rightarrow> nat \<Rightarrow> request \<Rightarrow> product list \<Rightarrow> response \<times> product list" where
  "mem_server parse now req ps =
     (if http_method req = ''OPTIONS'' then (\<lparr>status = 200, json = None\<rparr>, ps)
      else if pathname req = ''/health'' then
        (respond 200 [(''status'', JStr ''OK''), (''service'', JStr ''product-service''),
                      (''timestamp'', JTime now), (''version'', JStr ''1.0.0'')], ps)
      else if pathname req = ''/api/products'' \<and> http_method req = ''GET'' then
        (mem_list (query req) ps, ps)
      else
        (case id_route ''GET'' req of
           Some ident \<Rightarrow> (mem_get ident ps, ps)
         | None \<Rightarrow>
             if pathname req = ''/api/products'' \<and> http_method req = ''POST'' then
               mem_post parse now (body_text req) ps
             else (route_not_found req, ps)))"

text \<open>
  The ids of the array are natural numbers and the array is not empty: true of the sample
  data, and kept by every request (see \<open>ids_ok_sample\<close> and \<open>ids_ok_mem_server\<close>
  below).
\<close>

fun is_nat_id :: "jsnum \<Rightarrow> bool" where
  "is_nat_id (Fin q) = (0 \<le> q \<and> q = of_int \<lfloor>q\<rfloor>)"
| "is_nat_id x = False"

definition ids_ok :: "product list \<Rightarrow> bool" where
  "ids_ok ps = (ps \<noteq> [] \<and> list_all (\<lambda>p. is_nat_id (p_id p)) ps)"

section \<open>The persisted variant\<close>

subsection \<open>The products table\<close>

text \<open>
  The table of the initialisation script:
  \<^verbatim>\<open>id SERIAL PRIMARY KEY, name VARCHAR(255) NOT NULL, description TEXT,\<close>
  \<^verbatim>\<open>price DECIMAL(10,2) NOT NULL CHECK (price > 0), category VARCHAR(100) NOT NULL,\<close>
  \<^verbatim>\<open>stock INTEGER DEFAULT 0 CHECK (stock >= 0), created_at TIMESTAMP, updated_at TIMESTAMP\<close>.
  The service always writes a string to \<open>description\<close> and a number to \<open>stock\<close>, so
  the nullable columns are modelled without \<open>NULL\<close>. The database is the table (in
  insertion order) and the next value of the sequence behind \<open>id\<close> (which starts
  at 1 and only grows).

  The database engine and its driver are not part of the repository. Each statement of
  \<open>ProductService\<close> is given the meaning PostgreSQL gives it on this table: a function
  for the INSERT, one for the dynamic UPDATE, one for each SELECT and the DELETE. The
  command text and the parameter list that the service builds are modelled beside them
  (\<open>getAllProducts_sql\<close>, \<open>updateProduct_sql\<close> and the \<open>_params\<close> functions).
\<close>

record row =
  r_id :: int
  r_name :: string
  r_description :: string
  r_price :: jsnum
  r_category :: string
  r_stock :: int
  r_created_at :: nat
  r_updated_at :: nat

record database =
  products_table :: "row list"
  products_id_seq :: nat

text \<open>
  The SQLSTATE of a failed statement; the service looks only for \<open>23505\<close>. For a value
  that does not fit the type of its column the model writes \<open>22000\<close>, the class of the
  data exceptions (string too long, numeric overflow, text that is no integer).
\<close>

datatype pg_error = PgError string

text \<open>
  Conversion of a bound number to \<open>DECIMAL(10,2)\<close>: a finite number is rounded to two
  places, half away from zero, and may have at most eight digits before the point;
  \<open>NaN\<close> is a value of the type; an infinity is not. Conversion to \<open>INTEGER\<close>: the
  number has to be an integer of 32 bits. Conversion to \<open>VARCHAR(n)\<close>: characters
  beyond the \<open>n\<close>-th are cut off if they are all spaces and fail the conversion if not.
\<close>

definition round2 :: "rat \<Rightarrow> rat" where
  "round2 q =
     (if 0 \<le> q then of_int \<lfloor>q * 100 + 1 / 2\<rfloor> / 100
      else - (of_int \<lfloor>- q * 100 + 1 / 2\<rfloor> / 100))"

fun numeric_10_2 :: "jsnum \<Rightarrow> jsnum option" where
  "numeric_10_2 NaN = Some NaN"
| "numeric_10_2 (Fin q) = (if \<bar>round2 q\<bar> < 100000000 then Some (Fin (round2 q)) else None)"
| "numeric_10_2 NegInf = None"
| "numeric_10_2 PosInf = None"

definition int4_range :: "int \<Rightarrow> bool" where
  "int4_range i = (- 2147483648 \<le> i \<and> i \<le> 2147483647)"

fun int4 :: "jsnum \<Rightarrow> int option" where
  "int4 (Fin q) = (if q = of_int \<lfloor>q\<rfloor> \<and> int4_range \<lfloor>q\<rfloor> then Some \<lfloor>q\<rfloor> else None)"
| "int4 x = None"

definition varchar :: "nat \<Rightarrow> string \<Rightarrow> string option" where
  "varchar n s = (if list_all (\<lambda>c. c = CHR '' '') (drop n s) then Some (take n s) else None)"

text \<open>
  Comparison of \<open>numeric\<close> values in PostgreSQL: \<open>NaN\<close> equals itself and is greater
  than every other value, the infinities included (which \<open>numeric\<close> has from
  PostgreSQL 14 on).
\<close>

fun pg_le :: "jsnum \<Rightarrow> jsnum \<Rightarrow> bool" where
  "pg_le a NaN = True"
| "pg_le NaN b = False"
| "pg_le a b = js_le a b"

text \<open>
  The two CHECK constraints of the table, \<open>price > 0\<close> and \<open>stock >= 0\<close>. In the
  order of \<open>numeric\<close> a price that is \<open>NaN\<close> is greater than 0.
\<close>

definition check_constraints :: "row \<Rightarrow> bool" where
  "check_constraints r = (\<not> pg_le (r_price r) (Fin 0) \<and> 0 \<le> r_stock r)"

text \<open>
  \<open>INSERT INTO products (name, description, price, category, stock, created_at,
  updated_at) VALUES ($1, $2, $3, $4, $5, CURRENT_TIMESTAMP, CURRENT_TIMESTAMP) RETURNING\<close>
  the row. The parameters are converted to the types of their columns before the
  statement runs: a value that does not fit fails it there, and the sequence is not
  touched. Then the id is the sequence's next value, which a statement that fails later
  does not give back: on a \<open>NULL\<close> name or category (\<open>undefined\<close> is bound as
  \<open>NULL\<close>), a violated CHECK or a duplicate key.
\<close>

fun coerce_text :: "nat \<Rightarrow> string option \<Rightarrow> string option option" where
  "coerce_text n None = Some None"
| "coerce_text n (Some s) = map_option Some (varchar n s)"

definition insert_row ::
  "nat \<Rightarrow> string option \<Rightarrow> string \<Rightarrow> jsnum \<Rightarrow> string option \<Rightarrow> jsnum \<Rightarrow> database
     \<Rightarrow> (pg_error + row) \<times> database" where
  "insert_row now name descr price category stock db =
     (case (coerce_text 255 name, numeric_10_2 price, coerce_text 100 category, int4 stock) of
        (Some name', Some pr, Some category', Some st) \<Rightarrow>
          (let ident = int (products_id_seq db);
               db1 = db\<lparr>products_id_seq := products_id_seq db + 1\<rparr>
           in if \<not> int4_range ident then (Inl (PgError ''22003''), db1)
              else
                (case (name', category') of
                   (Some n, Some c) \<Rightarrow>
                     (let r = \<lparr>r_id = ident, r_name = n, r_description = descr, r_price = pr,
                               r_category = c, r_stock = st, r_created_at = now,
                               r_updated_at = now\<rparr>
                      in if \<not> check_constraints r then (Inl (PgError ''23514''), db1)
                         else if ident \<in> set (map r_id (products_table db)) then
                           (Inl (PgError ''23505''), db1)
                         else (Inr r, db1\<lparr>products_table := products_table db @ [r]\<rparr>))
                 | _ \<Rightarrow> (Inl (PgError ''23502''), db1)))
      | _ \<Rightarrow> (Inl (PgError ''22000''), db))"

text \<open>
  The assignments of a dynamic \<open>UPDATE\<close>: one per entry of the arrays \<open>updates\<close> and
  \<open>params\<close> that \<open>updateProduct\<close> fills in step.
\<close>

datatype assignment =
    SetName string
  | SetDescription string
  | SetPrice jsnum
  | SetCategory string
  | SetStock jsnum

text \<open>A bound parameter.\<close>

datatype param = PNull | PStr string | PNum jsnum

fun column :: "assignment \<Rightarrow> string" where
  "column (SetName v) = ''name''"
| "column (SetDescription v) = ''description''"
| "column (SetPrice v) = ''price''"
| "column (SetCategory v) = ''category''"
| "column (SetStock v) = ''stock''"

fun assignment_param :: "assignment \<Rightarrow> param" where
  "assignment_param (SetName v) = PStr v"
| "assignment_param (SetDescription v) = PStr v"
| "assignment_param (SetPrice v) = PNum v"
| "assignment_param (SetCategory v) = PStr v"
| "assignment_param (SetStock v) = PNum v"

text \<open>
  What an assignment does to a row, once its parameter is converted to the column's
  type (\<open>None\<close>: the value does not fit the column).
\<close>

fun coerce :: "assignment \<Rightarrow> (row \<Rightarrow> row) option" where
  "coerce (SetName v) = map_option (\<lambda>n r. r\<lparr>r_name := n\<rparr>) (varchar 255 v)"
| "coerce (SetDescription v) = Some (\<lambda>r. r\<lparr>r_description := v\<rparr>)"
| "coerce (SetPrice v) = map_option (\<lambda>pr r. r\<lparr>r_price := pr\<rparr>) (numeric_10_2 v)"
| "coerce (SetCategory v) = map_option (\<lambda>c r. r\<lparr>r_category := c\<rparr>) (varchar 100 v)"
| "coerce (SetStock v) = map_option (\<lambda>st r. r\<lparr>r_stock := st\<rparr>) (int4 v)"

fun coerce_all :: "assignment list \<Rightarrow> (row \<Rightarrow> row) option" where
  "coerce_all [] = Some (\<lambda>r. r)"
| "coerce_all (a # as) =
     (case (coerce a, coerce_all as) of
        (Some f, Some g) \<Rightarrow> Some (\<lambda>r. g (f r))
      | _ \<Rightarrow> None)"

text \<open>
  \<open>UPDATE products SET ..., updated_at = CURRENT_TIMESTAMP WHERE id = $n RETURNING\<close>
  the updated rows. The statement fails as a whole, changing nothing, when a value does
  not fit its column or an updated row violates a CHECK; with no row of that id it
  succeeds and returns no row.
\<close>

definition update_rows ::
  "nat \<Rightarrow> assignment list \<Rightarrow> nat \<Rightarrow> database \<Rightarrow> pg_error + (row list \<times> database)" where
  "update_rows now updates ident db =
     (case coerce_all updates of
        None \<Rightarrow> Inl (PgError ''22000'')
      | Some f \<Rightarrow>
          if \<not> int4_range (int ident) then Inl (PgError ''22000'')
          else if list_all (\<lambda>r. if r_id r = int ident then check_constraints (f r) else True)
                    (products_table db)
          then Inr (map (\<lambda>r. (f r)\<lparr>r_updated_at := now\<rparr>)
                      (filter (\<lambda>r. r_id r = int ident) (products_table db)),
                    db\<lparr>products_table :=
                         map (\<lambda>r. if r_id r = int ident then (f r)\<lparr>r_updated_at := now\<rparr> else r)
                           (products_table db)\<rparr>)
          else Inl (PgError ''23514''))"

text \<open>\<open>SELECT ... WHERE id = $1\<close> and \<open>DELETE ... WHERE id = $1 RETURNING\<close> the rows.\<close>

definition select_by_id :: "nat \<Rightarrow> database \<Rightarrow> pg_error + row list" where
  "select_by_id ident db =
     (if int4_range (int ident)
      then Inr (filter (\<lambda>r. r_id r = int ident) (products_table db))
      else Inl (PgError ''22000''))"

definition delete_rows :: "nat \<Rightarrow> database \<Rightarrow> pg_error + (row list \<times> database)" where
  "delete_rows ident db =
     (if int4_range (int ident)
      then Inr (filter (\<lambda>r. r_id r = int ident) (products_table db),
                db\<lparr>products_table := filter (\<lambda>r. r_id r \<noteq> int ident) (products_table db)\<rparr>)
      else Inl (PgError ''22000''))"

text \<open>
  \<open>text LIKE pattern\<close>: \<open>%\<close> matches any run of characters, \<open>_\<close> any one character,
  and a backslash makes the next character of the pattern literal.
\<close>

fun like :: "string \<Rightarrow> string \<Rightarrow> bool" where
  "like [] [] = True"
| "like [] (x # t) = False"
| "like (c # p) [] = (c = CHR ''%'' \<and> like p [])"
| "like (c # p) (x # t) =
     (if c = CHR ''%'' then like p (x # t) \<or> like (c # p) t
      else if c = CHR ''_'' then like p t
      else if c = CHR 0x5C then (case p of [] \<Rightarrow> False | e # p' \<Rightarrow> e = x \<and> like p' t)
      else c = x \<and> like p t)"

text \<open>
  The conditions \<open>getAllProducts\<close> appends to \<open>WHERE 1=1\<close>, each with the value it
  pushes to \<open>params\<close>.
\<close>

datatype clause = CategoryLike string | PriceGe jsnum | PriceLe jsnum

fun clause_param :: "clause \<Rightarrow> param" where
  "clause_param (CategoryLike v) = PStr v"
| "clause_param (PriceGe v) = PNum v"
| "clause_param (PriceLe v) = PNum v"

fun clause_holds :: "clause \<Rightarrow> row \<Rightarrow> bool" where
  "clause_holds (CategoryLike v) r = like (toLowerCase v) (toLowerCase (r_category r))"
| "clause_holds (PriceGe v) r = pg_le v (r_price r)"
| "clause_holds (PriceLe v) r = pg_le (r_price r) v"

text \<open>
  \<open>SELECT ... WHERE 1=1 AND ... ORDER BY created_at DESC\<close>. PostgreSQL leaves the
  order of rows with equal \<open>created_at\<close> open; the model keeps them in table order.
\<close>

definition select_where :: "clause list \<Rightarrow> database \<Rightarrow> row list" where
  "select_where cs db =
     sort_key (\<lambda>r. - int (r_created_at r))
       (filter (\<lambda>r. list_all (\<lambda>c. clause_holds c r) cs) (products_table db))"

text \<open>
  \<open>SELECT category, COUNT(*), AVG(price), SUM(stock), MIN(price), MAX(price) FROM
  products GROUP BY category ORDER BY total_products DESC\<close>.
\<close>

record stat =
  s_category :: string
  total_products :: nat
  avg_price :: jsnum
  total_stock :: int
  min_price :: jsnum
  max_price :: jsnum

text \<open>
  The aggregates over the prices of a group, which is never empty: the average is
  \<open>NaN\<close> if a price is; the least and the greatest price are taken in the order of
  \<open>numeric\<close>.
\<close>

fun fin_part :: "jsnum \<Rightarrow> rat" where
  "fin_part (Fin q) = q"
| "fin_part x = 0"

definition pg_avg :: "jsnum list \<Rightarrow> jsnum" where
  "pg_avg xs =
     (if NaN \<in> set xs then NaN else Fin (sum_list (map fin_part xs) / of_nat (length xs)))"

definition pg_min :: "jsnum list \<Rightarrow> jsnum" where
  "pg_min xs = fold (\<lambda>x m. if pg_le x m then x else m) xs NaN"

definition pg_max :: "jsnum list \<Rightarrow> jsnum" where
  "pg_max xs = fold (\<lambda>x m. if pg_le m x then x else m) xs NegInf"

definition category_stat :: "row list \<Rightarrow> string \<Rightarrow> stat" where
  "category_stat rs c =
     (let g = filter (\<lambda>r. r_category r = c) rs
      in \<lparr>s_category = c,
          total_products = length g,
          avg_price = pg_avg (map r_price g),
          total_stock = sum_list (map r_stock g),
          min_price = pg_min (map r_price g),
          max_price = pg_max (map r_price g)\<rparr>)"

definition select_stats :: "database \<Rightarrow> stat list" where
  "select_stats db =
     sort_key (\<lambda>s. - int (total_products s))
       (map (category_stat (products_table db)) (remdups (map r_category (products_table db))))"

text \<open>The rows the initialisation script inserts; \<open>t0\<close> is the time it ran.\<close>

definition seed_row :: "nat \<Rightarrow> int \<Rightarrow> string \<Rightarrow> string \<Rightarrow> rat \<Rightarrow> string \<Rightarrow> int \<Rightarrow> row" where
  "seed_row t0 i n d pr c st =
     \<lparr>r_id = i, r_name = n, r_description = d, r_price = Fin pr, r_category = c, r_stock = st,
      r_created_at = t0, r_updated_at = t0\<rparr>"

definition seed_database :: "nat \<Rightarrow> database" where
  "seed_database t0 =
     \<lparr>products_table =
        [seed_row t0 1 ''Gaming Laptop Pro''
           ''High-performance gaming laptop with RTX 4070 graphics card''
           (129999 / 100) ''Electronics'' 15,
         seed_row t0 2 ''Wireless Headphones''
           ''Premium noise-cancelling wireless headphones with 30h battery''
           (24999 / 100) ''Audio'' 30,
         seed_row t0 3 ''Smart Watch Ultra''
           ''Advanced fitness tracking smartwatch with heart rate and GPS''
           (39999 / 100) ''Wearables'' 25,
         seed_row t0 4 ''Mechanical Keyboard''
           ''RGB backlit mechanical keyboard with Cherry MX switches''
           (12999 / 100) ''Accessories'' 40,
         seed_row t0 5 ''4K Webcam''
           ''Ultra HD webcam with auto-focus and noise reduction''
           (8999 / 100) ''Electronics'' 20,
         seed_row t0 6 ''Bluetooth Speaker''
           (''Portable waterproof Bluetooth speaker with 360'' @ [CHR 0xC3, CHR 0x82, CHR 0xC2, CHR 0xB0] @ '' sound'')
           (7999 / 100) ''Audio'' 35,
         seed_row t0 7 ''USB-C Hub''
           ''7-in-1 USB-C hub with HDMI, USB ports and SD card reader''
           (4999 / 100) ''Accessories'' 50,
         seed_row t0 8 ''Wireless Mouse''
           ''Ergonomic wireless mouse with precision tracking''
           (3999 / 100) ''Accessories'' 45],
      products_id_seq = 9\<rparr>"

subsection \<open>ProductService\<close>

text \<open>
  What a request sees of its surroundings: the platform's \<open>JSON.parse\<close>, the clock,
  \<open>process.env.NODE_ENV\<close>, whether the pool reaches the database (every
  \<open>pool.query\<close> rejects when it does not), and what the health probe reads.
\<close>

record env =
  JSON_parse :: "string \<Rightarrow> productData option"
  now :: nat
  NODE_ENV :: "string option"
  pool_up :: bool
  probe_error :: string
  probe_version :: string
  pool_total :: nat
  pool_idle :: nat
  pool_waiting :: nat

text \<open>A thrown \<open>Error\<close> with its message.\<close>

datatype js_error = Error string

fun message :: "js_error \<Rightarrow> string" where
  "message (Error m) = m"

text \<open>Decimal digits of a parameter number in \<open>$n\<close>.\<close>

fun show_nat :: "nat \<Rightarrow> string" where
  "show_nat n =
     (if n < 10 then [''0123456789'' ! n]
      else show_nat (n div 10) @ [''0123456789'' ! (n mod 10)])"

declare show_nat.simps [simp del]

fun join :: "string \<Rightarrow> string list \<Rightarrow> string" where
  "join sep [] = []"
| "join sep [x] = x"
| "join sep (x # y # ys) = x @ sep @ join sep (y # ys)"

definition nl :: string where
  "nl = [CHR 0x0A]"

text \<open>An optional string as a condition and as a value: present and not empty.\<close>

fun if_truthy :: "string option \<Rightarrow> (string \<Rightarrow> 'a) \<Rightarrow> 'a list" where
  "if_truthy None f = []"
| "if_truthy (Some s) f = (if s = [] then [] else [f s])"

text \<open>\<open>getAllProducts\<close>: the conditions, the command text, the parameters, the result.\<close>

definition getAllProducts_clauses :: "filters \<Rightarrow> clause list" where
  "getAllProducts_clauses f =
     if_truthy (q_category f) (\<lambda>c. CategoryLike (''%'' @ c @ ''%''))
     @ if_truthy (q_minPrice f) (\<lambda>m. PriceGe (parseFloat m))
     @ if_truthy (q_maxPrice f) (\<lambda>m. PriceLe (parseFloat m))"

fun clause_sql :: "clause \<Rightarrow> nat \<Rightarrow> string" where
  "clause_sql (CategoryLike v) k = '' AND LOWER(category) LIKE LOWER($'' @ show_nat k @ '')''"
| "clause_sql (PriceGe v) k = '' AND price >= $'' @ show_nat k"
| "clause_sql (PriceLe v) k = '' AND price <= $'' @ show_nat k"

definition select_sql :: "clause list \<Rightarrow> string" where
  "select_sql cs =
     nl @ ''      SELECT id, name, description, price, category, stock, '' @
     nl @ ''             created_at, updated_at '' @
     nl @ ''      FROM products '' @
     nl @ ''      WHERE 1=1'' @
     nl @ ''    '' @
     concat (map (\<lambda>(k, c). clause_sql c k) (enumerate 1 cs)) @
     '' ORDER BY created_at DESC''"

definition getAllProducts_sql :: "filters \<Rightarrow> string" where
  "getAllProducts_sql f = select_sql (getAllProducts_clauses f)"

definition getAllProducts_params :: "filters \<Rightarrow> param list" where
  "getAllProducts_params f = map clause_param (getAllProducts_clauses f)"

definition getAllProducts :: "env \<Rightarrow> filters \<Rightarrow> database \<Rightarrow> js_error + row list" where
  "getAllProducts e f db =
     (if pool_up e then Inr (select_where (getAllProducts_clauses f) db)
      else Inl (Error ''Failed to fetch products''))"

text \<open>\<open>getProductById\<close>: \<open>result.rows[0] || null\<close>.\<close>

definition first_row :: "row list \<Rightarrow> row option" where
  "first_row rs = (case rs of [] \<Rightarrow> None | r # _ \<Rightarrow> Some r)"

definition getProductById :: "env \<Rightarrow> nat \<Rightarrow> database \<Rightarrow> js_error + row option" where
  "getProductById e ident db =
     (if pool_up e then
        (case select_by_id ident db of
           Inl err \<Rightarrow> Inl (Error ''Failed to fetch product'')
         | Inr rs \<Rightarrow> Inr (first_row rs))
      else Inl (Error ''Failed to fetch product''))"

text \<open>\<open>createProduct\<close>.\<close>

fun opt_param :: "string option \<Rightarrow> param" where
  "opt_param None = PNull"
| "opt_param (Some s) = PStr s"

definition createProduct_params :: "productData \<Rightarrow> param list" where
  "createProduct_params d =
     [opt_param (b_name d),
      PStr (or_empty (b_description d)),
      PNum (parseFloat_val (b_price d)),
      opt_param (b_category d),
      PNum (js_or (parseInt (b_stock d)) (Fin 0))]"

definition createProduct :: "env \<Rightarrow> productData \<Rightarrow> database \<Rightarrow> (js_error + row) \<times> database" where
  "createProduct e d db =
     (if pool_up e then
        (case insert_row (now e) (b_name d) (or_empty (b_description d))
                (parseFloat_val (b_price d)) (b_category d)
                (js_or (parseInt (b_stock d)) (Fin 0)) db of
           (Inl (PgError code), db') \<Rightarrow>
             (if code = ''23505'' then Inl (Error ''Product with this name already exists'')
              else Inl (Error ''Failed to create product''), db')
         | (Inr r, db') \<Rightarrow> (Inr r, db'))
      else (Inl (Error ''Failed to create product''), db))"

text \<open>\<open>updateProduct\<close>: the dynamic update.\<close>

fun if_defined :: "'a option \<Rightarrow> ('a \<Rightarrow> 'b) \<Rightarrow> 'b list" where
  "if_defined None f = []"
| "if_defined (Some v) f = [f v]"

definition updateProduct_updates :: "productData \<Rightarrow> assignment list" where
  "updateProduct_updates d =
     if_defined (b_name d) SetName
     @ if_defined (b_description d) SetDescription
     @ if_defined (b_price d) (\<lambda>price. SetPrice (parseFloat_val (Some price)))
     @ if_defined (b_category d) SetCategory
     @ if_defined (b_stock d) (\<lambda>stock. SetStock (parseInt (Some stock)))"

definition update_sql :: "assignment list \<Rightarrow> string" where
  "update_sql updates =
     nl @ ''      UPDATE products '' @
     nl @ ''      SET '' @
     join '', '' (map (\<lambda>(k, a). column a @ '' = $'' @ show_nat k) (enumerate 1 updates)
                  @ [''updated_at = CURRENT_TIMESTAMP'']) @
     nl @ ''      WHERE id = $'' @ show_nat (length updates + 1) @
     nl @ ''      RETURNING id, name, description, price, category, stock, created_at, updated_at'' @
     nl @ ''    ''"

definition updateProduct_sql :: "productData \<Rightarrow> string" where
  "updateProduct_sql d = update_sql (updateProduct_updates d)"

definition updateProduct_params :: "nat \<Rightarrow> productData \<Rightarrow> param list" where
  "updateProduct_params ident d =
     map assignment_param (updateProduct_updates d) @ [PNum (Fin (of_nat ident))]"

definition updateProduct ::
  "env \<Rightarrow> nat \<Rightarrow> productData \<Rightarrow> database \<Rightarrow> (js_error + row option) \<times> database" where
  "updateProduct e ident d db =
     (if updateProduct_updates d = [] then (Inl (Error ''No fields to update''), db)
      else if pool_up e then
        (case update_rows (now e) (updateProduct_updates d) ident db of
           Inl err \<Rightarrow> (Inl (Error ''Failed to update product''), db)
         | Inr (rs, db') \<Rightarrow> (Inr (first_row rs), db'))
      else (Inl (Error ''Failed to update product''), db))"

text \<open>\<open>deleteProduct\<close> and \<open>getProductStats\<close>.\<close>

definition deleteProduct :: "env \<Rightarrow> nat \<Rightarrow> database \<Rightarrow> (js_error + row option) \<times> database" where
  "deleteProduct e ident db =
     (if pool_up e then
        (case delete_rows ident db of
           Inl err \<Rightarrow> (Inl (Error ''Failed to delete product''), db)
         | Inr (rs, db') \<Rightarrow> (Inr (first_row rs), db'))
      else (Inl (Error ''Failed to delete product''), db))"

definition getProductStats :: "env \<Rightarrow> database \<Rightarrow> js_error + stat list" where
  "getProductStats e db =
     (if pool_up e then Inr (select_stats db)
      else Inl (Error ''Failed to fetch product statistics''))"

subsection \<open>The request listener\<close>

text \<open>
  \<open>JSON.stringify\<close> of a returned row and of a statistics row. node-postgres hands
  \<open>integer\<close> values over as numbers, and \<open>numeric\<close> and \<open>bigint\<close> values (the
  price, the counts, sums and averages) as decimal strings.
\<close>

definition row_json :: "row \<Rightarrow> jv" where
  "row_json r =
     JObj [(''id'', JNum (Fin (of_int (r_id r)))), (''name'', JStr (r_name r)),
           (''description'', JStr (r_description r)), (''price'', JDecimal (r_price r)),
           (''category'', JStr (r_category r)), (''stock'', JNum (Fin (of_int (r_stock r)))),
           (''created_at'', JTime (r_created_at r)), (''updated_at'', JTime (r_updated_at r))]"

definition stat_json :: "stat \<Rightarrow> jv" where
  "stat_json s =
     JObj [(''category'', JStr (s_category s)),
           (''total_products'', JDecimal (Fin (of_nat (total_products s)))),
           (''avg_price'', JDecimal (avg_price s)),
           (''total_stock'', JDecimal (Fin (of_int (total_stock s)))),
           (''min_price'', JDecimal (min_price s)),
           (''max_price'', JDecimal (max_price s))]"

text \<open>The \<open>catch\<close> of the listener's outer \<open>try\<close>.\<close>

definition internal_error :: "env \<Rightarrow> js_error \<Rightarrow> response" where
  "internal_error e err =
     respond 500 (error_envelope ''Internal server error'' @
       (if NODE_ENV e = Some ''development'' then [(''details'', JStr (message err))] else []))"

text \<open>\<open>process.env.NODE_ENV || 'development'\<close>.\<close>

definition environment :: "env \<Rightarrow> string" where
  "environment e = (if truthy_str (NODE_ENV e) then or_empty (NODE_ENV e) else ''development'')"

definition health :: "env \<Rightarrow> response" where
  "health e =
     respond 200
       [(''status'', JStr ''OK''),
        (''service'', JStr ''product-service''),
        (''timestamp'', JTime (now e)),
        (''version'', JStr ''2.0.0''),
        (''database'',
           JObj (if pool_up e then
                   [(''status'', JStr ''connected''),
                    (''server_time'', JTime (now e)),
                    (''version'', JStr (probe_version e)),
                    (''pool_total'', JNum (Fin (of_nat (pool_total e)))),
                    (''pool_idle'', JNum (Fin (of_nat (pool_idle e)))),
                    (''pool_waiting'', JNum (Fin (of_nat (pool_waiting e))))]
                 else
                   [(''status'', JStr ''disconnected''),
                    (''error'', JStr (probe_error e))])),
        (''environment'', JStr (environment e))]"

definition get_stats :: "env \<Rightarrow> database \<Rightarrow> response" where
  "get_stats e db =
     (case getProductStats e db of
        Inl err \<Rightarrow> internal_error e err
      | Inr stats \<Rightarrow> respond 200 [(''success'', JBool True), (''data'', JArr (map stat_json stats))])"

definition get_products :: "env \<Rightarrow> filters \<Rightarrow> database \<Rightarrow> response" where
  "get_products e q db =
     (case getAllProducts e q db of
        Inl err \<Rightarrow> internal_error e err
      | Inr products \<Rightarrow>
          respond 200 [(''success'', JBool True),
                       (''count'', JNum (Fin (of_nat (length products)))),
                       (''data'', JArr (map row_json products))])"

definition get_product :: "env \<Rightarrow> nat \<Rightarrow> database \<Rightarrow> response" where
  "get_product e ident db =
     (case getProductById e ident db of
        Inl err \<Rightarrow> internal_error e err
      | Inr None \<Rightarrow> respond 404 (error_envelope ''Product not found'')
      | Inr (Some product) \<Rightarrow> respond 200 [(''success'', JBool True), (''data'', row_json product)])"

text \<open>
  POST \<open>/api/products\<close>; \<open>price <= 0\<close> is tested on a price already found truthy,
  and compares the price, converted to a number, with 0.
\<close>

definition post_product :: "env \<Rightarrow> string \<Rightarrow> database \<Rightarrow> response \<times> database" where
  "post_product e text db =
     (case parseBody (JSON_parse e) text of
        Inl err \<Rightarrow> (respond 400 (error_envelope ''Invalid JSON''), db)
      | Inr b \<Rightarrow>
          (case required_fields b of
             None \<Rightarrow> (respond 400 (error_envelope ''Name, price, and category are required''), db)
           | Some (name, price, category) \<Rightarrow>
               if js_le (ToNumber price) (Fin 0) then
                 (respond 400 (error_envelope ''Price must be greater than 0''), db)
               else
                 (case createProduct e b db of
                    (Inr created, db') \<Rightarrow>
                      (respond 201 [(''success'', JBool True), (''data'', row_json created)], db')
                  | (Inl err, db') \<Rightarrow> (respond 400 (error_envelope (message err)), db'))))"

text \<open>PUT \<open>/api/products/{id}\<close>; the price test is \<open>body.price && body.price <= 0\<close>.\<close>

definition invalid_price :: "productData \<Rightarrow> bool" where
  "invalid_price b =
     (case b_price b of
        None \<Rightarrow> False
      | Some price \<Rightarrow> truthy_val price \<and> js_le (ToNumber price) (Fin 0))"

definition put_product :: "env \<Rightarrow> nat \<Rightarrow> string \<Rightarrow> database \<Rightarrow> response \<times> database" where
  "put_product e ident text db =
     (case parseBody (JSON_parse e) text of
        Inl err \<Rightarrow> (respond 400 (error_envelope ''Invalid JSON''), db)
      | Inr b \<Rightarrow>
          if invalid_price b then (respond 400 (error_envelope ''Price must be greater than 0''), db)
          else
            (case updateProduct e ident b db of
               (Inr None, db') \<Rightarrow> (respond 404 (error_envelope ''Product not found''), db')
             | (Inr (Some updatedProduct), db') \<Rightarrow>
                 (respond 200 [(''success'', JBool True), (''data'', row_json updatedProduct)], db')
             | (Inl err, db') \<Rightarrow> (respond 400 (error_envelope (message err)), db')))"

definition delete_product :: "env \<Rightarrow> nat \<Rightarrow> database \<Rightarrow> response \<times> database" where
  "delete_product e ident db =
     (case deleteProduct e ident db of
        (Inr None, db') \<Rightarrow> (respond 404 (error_envelope ''Product not found''), db')
      | (Inr (Some deletedProduct), db') \<Rightarrow>
          (respond 200 [(''success'', JBool True),
                        (''message'', JStr ''Product deleted successfully''),
                        (''data'', row_json deletedProduct)], db')
      | (Inl err, db') \<Rightarrow> (respond 400 (error_envelope (message err)), db'))"

text \<open>The request listener of the persisted variant: the response and the database afterwards.\<close>

definition server :: "env \<Rightarrow> request \<Rightarrow> database \<Rightarrow> response \<times> database" where
  "server e req db =
     (if http_method req = ''OPTIONS'' then (\<lparr>status = 200, json = None\<rparr>, db)
      else if pathname req = ''/health'' then (health e, db)
      else if pathname req = ''/api/products/stats'' \<and> http_method req = ''GET'' then
        (get_stats e db, db)
      else if pathname req = ''/api/products'' \<and> http_method req = ''GET'' then
        (get_products e (query req) db, db)
      else
        (case id_route ''GET'' req of
           Some ident \<Rightarrow> (get_product e ident db, db)
         | None \<Rightarrow>
             if pathname req = ''/api/products'' \<and> http_method req = ''POST'' then
               post_product e (body_text req) db
             else
               (case id_route ''PUT'' req of
                  Some ident \<Rightarrow> put_product e ident (body_text req) db
                | None \<Rightarrow>
                    (case id_route ''DELETE'' req of
                       Some ident \<Rightarrow> delete_product e ident db
                     | None \<Rightarrow> (route_not_found req, db)))))"

subsection \<open>Examples of requests\<close>

text \<open>
  A request without query parameters, an environment whose pool reaches the database and
  whose \<open>JSON.parse\<close> returns the given result, and reading a property of an object.
\<close>

definition request_of :: "string \<Rightarrow> string \<Rightarrow> string \<Rightarrow> request" where
  "request_of m p t =
     \<lparr>http_method = m, pathname = p,
      query = \<lparr>q_category = None, q_minPrice = None, q_maxPrice = None\<rparr>,
      body_text = t\<rparr>"

definition env_of :: "productData option \<Rightarrow> nat \<Rightarrow> env" where
  "env_of parsed t =
     \<lparr>JSON_parse = (\<lambda>s. parsed), now = t, NODE_ENV = None, pool_up = True,
      probe_error = [], probe_version = ''PostgreSQL 15.4'', pool_total = 1, pool_idle = 1,
      pool_waiting = 0\<rparr>"

fun property :: "jv \<Rightarrow> string \<Rightarrow> jv option" where
  "property (JObj kvs) k = map_of kvs k"
| "property v k = None"

definition mouse :: productData where
  "mouse = \<lparr>b_name = Some ''Mouse'', b_description = None,
            b_price = Some (JNumber (Fin (1999 / 100))),
            b_category = Some ''Accessories'', b_stock = None\<rparr>"

section \<open>Auxiliary facts\<close>

lemma respond_simps [simp]:
  "status (respond c obj) = c" "json (respond c obj) = Some obj"
  by (simp_all add: respond_def)

lemma first_row_map_filter: "first_row (map g (filter P xs)) = map_option g (find P xs)"
  by (induction xs) (auto simp: first_row_def)

lemma find_Some_set: "find P xs = Some x \<Longrightarrow> x \<in> set xs \<and> P x"
  by (induction xs) (auto split: if_splits)

text \<open>Values used in the examples, computed by the code equations.\<close>

lemma round2_example: "round2 (1999 / 100) = 1999 / 100"
  by code_simp


lemma parseInt_rat_example:
  "parseInt_rat (- (1 / 2)) = 0" "parseInt_rat (- 3) = - 3" "parseInt_rat 7 = 7"
  "parseInt_rat (- (1 / 10000000)) = - 1"
  by code_simp+

subsection \<open>Conversions to the column types\<close>

lemma varchar_short: "length s \<le> n \<Longrightarrow> varchar n s = Some s"
  by (simp add: varchar_def)






subsection \<open>The INSERT and \<open>createProduct\<close>\<close>

lemma insert_row_Inr:
  assumes "insert_row t n d p c s db = (Inr r, db')"
  shows "check_constraints r \<and> numeric_10_2 p = Some (r_price r) \<and> int4 s = Some (r_stock r)
     \<and> products_table db' = products_table db @ [r]
     \<and> r_created_at r = t \<and> r_updated_at r = t \<and> r_id r = int (products_id_seq db)
     \<and> r_id r \<notin> set (map r_id (products_table db)) \<and> int4_range (r_id r)"
  using assms
  by (auto simp: insert_row_def Let_def split: option.splits if_splits)


lemma createProduct_Inr:
  assumes "createProduct e d db = (Inr r, db')"
  shows "pool_up e \<and> insert_row (now e) (b_name d) (or_empty (b_description d))
                (parseFloat_val (b_price d)) (b_category d)
                (js_or (parseInt (b_stock d)) (Fin 0)) db = (Inr r, db')"
  using assms
  by (auto simp: createProduct_def split: if_splits prod.splits sum.splits pg_error.splits)







subsection \<open>The UPDATE and \<open>updateProduct\<close>\<close>

lemma updates_empty_iff:
  "(updateProduct_updates d = []) =
   (b_name d = None \<and> b_description d = None \<and> b_price d = None \<and> b_category d = None
    \<and> b_stock d = None)"
  by (cases "b_name d"; cases "b_description d"; cases "b_price d"; cases "b_category d";
      cases "b_stock d"; simp add: updateProduct_updates_def)

text \<open>A field without an assignment is not touched by the converted assignments.\<close>

lemma coerce_all_frame:
  assumes "coerce_all (updateProduct_updates d) = Some f"
  shows "r_id (f r) = r_id r \<and> r_created_at (f r) = r_created_at r
     \<and> (b_name d = None \<longrightarrow> r_name (f r) = r_name r)
     \<and> (b_description d = None \<longrightarrow> r_description (f r) = r_description r)
     \<and> (b_price d = None \<longrightarrow> r_price (f r) = r_price r)
     \<and> (b_category d = None \<longrightarrow> r_category (f r) = r_category r)
     \<and> (b_stock d = None \<longrightarrow> r_stock (f r) = r_stock r)"
  using assms
  by (cases "b_name d"; cases "b_description d"; cases "b_price d"; cases "b_category d";
      cases "b_stock d")
     (auto simp: updateProduct_updates_def split: if_splits option.splits)



text \<open>A successful update rewrote the first row of that id, and every row of that id.\<close>

lemma updateProduct_Some:
  assumes "updateProduct e ident d db = (Inr (Some r'), db')"
  shows "\<exists>f r. coerce_all (updateProduct_updates d) = Some f
      \<and> find (\<lambda>r. r_id r = int ident) (products_table db) = Some r
      \<and> r' = (f r)\<lparr>r_updated_at := now e\<rparr>
      \<and> check_constraints (f r)
      \<and> products_table db' =
          map (\<lambda>r. if r_id r = int ident then (f r)\<lparr>r_updated_at := now e\<rparr> else r)
            (products_table db)"
proof -
  from assms obtain f where f: "coerce_all (updateProduct_updates d) = Some f"
    and ok: "list_all (\<lambda>r. if r_id r = int ident then check_constraints (f r) else True)
               (products_table db)"
    and fr: "first_row (map (\<lambda>r. (f r)\<lparr>r_updated_at := now e\<rparr>)
               (filter (\<lambda>r. r_id r = int ident) (products_table db))) = Some r'"
    and tab: "products_table db' =
          map (\<lambda>r. if r_id r = int ident then (f r)\<lparr>r_updated_at := now e\<rparr> else r)
            (products_table db)"
    by (auto simp: updateProduct_def update_rows_def split: if_splits option.splits sum.splits)
  from fr obtain r where r: "find (\<lambda>r. r_id r = int ident) (products_table db) = Some r"
    and r': "r' = (f r)\<lparr>r_updated_at := now e\<rparr>"
    by (auto simp: first_row_map_filter)
  from find_Some_set[OF r] have "r \<in> set (products_table db)" "r_id r = int ident"
    by auto
  with ok have "check_constraints (f r)" by (auto simp: list_all_iff)
  with f r r' tab show ?thesis by blast
qed

text \<open>The returned row is the one now stored under the id; other rows are as they were.\<close>

lemma updateProduct_stored:
  assumes "updateProduct e ident d db = (Inr (Some r'), db')"
  shows "find (\<lambda>r. r_id r = int ident) (products_table db') = Some r'
     \<and> filter (\<lambda>r. r_id r \<noteq> int ident) (products_table db')
         = filter (\<lambda>r. r_id r \<noteq> int ident) (products_table db)"
proof -
  from updateProduct_Some[OF assms] obtain f r where
    f: "coerce_all (updateProduct_updates d) = Some f"
    and r: "find (\<lambda>r. r_id r = int ident) (products_table db) = Some r"
    and r': "r' = (f r)\<lparr>r_updated_at := now e\<rparr>"
    and tab: "products_table db' =
          map (\<lambda>r. if r_id r = int ident then (f r)\<lparr>r_updated_at := now e\<rparr> else r)
            (products_table db)"
    by blast
  have ident: "\<And>x. r_id ((f x)\<lparr>r_updated_at := now e\<rparr>) = r_id x"
    using coerce_all_frame[OF f] by simp
  have find_map: "find (\<lambda>r. r_id r = i) (map (\<lambda>r. if r_id r = i then g r else r) xs)
      = map_option g (find (\<lambda>r. r_id r = i) xs)" if "\<And>x. r_id (g x) = r_id x"
    for i g and xs :: "row list"
    using that by (induction xs) auto
  have filter_map: "filter (\<lambda>r. r_id r \<noteq> i) (map (\<lambda>r. if r_id r = i then g r else r) xs)
      = filter (\<lambda>r. r_id r \<noteq> i) xs" if "\<And>x. r_id (g x) = r_id x"
    for i g and xs :: "row list"
    using that by (induction xs) auto
  have stored: "find (\<lambda>r. r_id r = int ident) (products_table db') = Some r'"
    unfolding tab
    using find_map[of "\<lambda>r. (f r)\<lparr>r_updated_at := now e\<rparr>" "int ident" "products_table db",
        OF ident] r r'
    by simp
  have others: "filter (\<lambda>r. r_id r \<noteq> int ident) (products_table db')
         = filter (\<lambda>r. r_id r \<noteq> int ident) (products_table db)"
    unfolding tab
    using filter_map[of "\<lambda>r. (f r)\<lparr>r_updated_at := now e\<rparr>" "int ident" "products_table db",
        OF ident]
    by simp
  from stored others show ?thesis by simp
qed









subsection \<open>Routing and validation\<close>

lemma required_fields_price_zero:
  "b_price b = Some (JNumber (Fin 0)) \<Longrightarrow> required_fields b = None"
  by (simp add: required_fields_def split: option.splits)

lemma productIdMatch_Some:
  assumes "productIdMatch p = Some ds"
  shows "p \<noteq> ''/health'' \<and> p \<noteq> ''/api/products/stats'' \<and> p \<noteq> ''/api/products''"
  using assms
  by (auto simp: productIdMatch_def Let_def is_digit_def split: if_splits)

lemma required_fields_empty: "required_fields empty_body = None"
  by (simp add: required_fields_def empty_body_def)

lemma round2_zero: "round2 0 = 0"
  by code_simp

subsection \<open>The command texts\<close>

lemma select_sql_shape:
  "getAllProducts_sql f =
     select_sql ((if truthy_str (q_category f) then [CategoryLike []] else [])
               @ (if truthy_str (q_minPrice f) then [PriceGe NaN] else [])
               @ (if truthy_str (q_maxPrice f) then [PriceLe NaN] else []))"
  by (cases "q_category f"; cases "q_minPrice f"; cases "q_maxPrice f")
     (simp_all add: getAllProducts_sql_def getAllProducts_clauses_def select_sql_def)

lemma update_columns:
  "map column (updateProduct_updates d) =
     (if b_name d = None then [] else [''name''])
   @ (if b_description d = None then [] else [''description''])
   @ (if b_price d = None then [] else [''price''])
   @ (if b_category d = None then [] else [''category''])
   @ (if b_stock d = None then [] else [''stock''])"
  by (cases "b_name d"; cases "b_description d"; cases "b_price d"; cases "b_category d";
      cases "b_stock d"; simp add: updateProduct_updates_def)

lemma set_clauses_by_column:
  "map (\<lambda>(k, a). column a @ s k) (enumerate n us)
     = map (\<lambda>(k, c). c @ s k) (enumerate n (map column us))"
  by (induction us arbitrary: n) auto

lemma update_sql_columns:
  assumes "map column us = map column us'"
  shows "update_sql us = update_sql us'"
proof -
  from assms have "length us = length us'"
    using map_eq_imp_length_eq by blast
  with assms show ?thesis
    by (simp add: update_sql_def set_clauses_by_column)
qed

subsection \<open>The list filters\<close>

text \<open>
  What both list operations return: the products that pass every filter supplied with a
  non-empty value. The in-memory category filter is a substring test; the persisted one
  is a \<open>LIKE\<close> match against the pattern built from the filter.
\<close>

lemma str_includes_iff: "str_includes h n \<longleftrightarrow> (\<exists>a b. h = a @ n @ b)"
proof (induction h)
  case Nil
  then show ?case by auto
next
  case (Cons c cs)
  show ?case
  proof
    assume "str_includes (c # cs) n"
    then consider "prefix n (c # cs)" | "str_includes cs n" by auto
    then show "\<exists>a b. c # cs = a @ n @ b"
    proof cases
      case 1
      then obtain b where "c # cs = n @ b" by (auto simp: prefix_def)
      then have "c # cs = [] @ n @ b" by simp
      then show ?thesis by blast
    next
      case 2
      with Cons.IH obtain a b where "cs = a @ n @ b" by blast
      then have "c # cs = (c # a) @ n @ b" by simp
      then show ?thesis by blast
    qed
  next
    assume "\<exists>a b. c # cs = a @ n @ b"
    then obtain a b where ab: "c # cs = a @ n @ b" by blast
    show "str_includes (c # cs) n"
    proof (cases a)
      case Nil
      with ab have "prefix n (c # cs)" by (simp add: prefix_def)
      then show ?thesis by simp
    next
      case (Cons x a')
      with ab have "cs = a' @ n @ b" by simp
      with Cons.IH have "str_includes cs n" by blast
      then show ?thesis by simp
    qed
  qed
qed

lemma filteredProducts_conjunctive:
  "p \<in> set (filteredProducts q ps) \<longleftrightarrow>
     p \<in> set ps
     \<and> (\<forall>c. q_category q = Some c \<and> c \<noteq> [] \<longrightarrow>
           str_includes (toLowerCase (p_category p)) (toLowerCase c))
     \<and> (\<forall>m. q_minPrice q = Some m \<and> m \<noteq> [] \<longrightarrow> js_ge (p_price p) (parseFloat m))
     \<and> (\<forall>m. q_maxPrice q = Some m \<and> m \<noteq> [] \<longrightarrow> js_le (p_price p) (parseFloat m))"
  by (cases "q_category q"; cases "q_minPrice q"; cases "q_maxPrice q")
     (auto simp: filteredProducts_def filter_category_def filter_minPrice_def
        filter_maxPrice_def)

lemma getAllProducts_conjunctive:
  assumes "getAllProducts e f db = Inr rs"
  shows "r \<in> set rs \<longleftrightarrow>
     r \<in> set (products_table db)
     \<and> (\<forall>c. q_category f = Some c \<and> c \<noteq> [] \<longrightarrow>
           like (toLowerCase (''%'' @ c @ ''%'')) (toLowerCase (r_category r)))
     \<and> (\<forall>m. q_minPrice f = Some m \<and> m \<noteq> [] \<longrightarrow> pg_le (parseFloat m) (r_price r))
     \<and> (\<forall>m. q_maxPrice f = Some m \<and> m \<noteq> [] \<longrightarrow> pg_le (r_price r) (parseFloat m))"
  using assms
  by (cases "q_category f"; cases "q_minPrice f"; cases "q_maxPrice f")
     (auto simp: getAllProducts_def getAllProducts_clauses_def select_where_def
        split: if_splits)

subsection \<open>Ids of the in-memory array\<close>

lemma js_le_trans: "js_le u v \<Longrightarrow> js_le v w \<Longrightarrow> js_le u w"
  by (cases u; cases v; cases w) auto

lemma js_max_nat_id:
  assumes "is_nat_id x" "a = NegInf \<or> is_nat_id a"
  shows "(js_max x a = NegInf \<or> is_nat_id (js_max x a)) \<and> js_le a (js_max x a)
     \<and> js_le x (js_max x a) \<and> (js_max x a = a \<or> js_max x a = x)"
  using assms by (cases a; cases x) (auto simp: js_max_def)

lemma fold_js_max:
  assumes "list_all is_nat_id xs" "a = NegInf \<or> is_nat_id a"
  shows "(fold js_max xs a = a \<or> fold js_max xs a \<in> set xs)
     \<and> js_le a (fold js_max xs a)
     \<and> list_all (\<lambda>x. js_le x (fold js_max xs a)) xs"
  using assms
proof (induction xs arbitrary: a)
  case Nil
  then show ?case by (cases a) auto
next
  case (Cons x xs)
  from Cons.prems have x: "is_nat_id x" and xs: "list_all is_nat_id xs" by simp_all
  note m = js_max_nat_id[OF x Cons.prems(2)]
  from m have m1: "js_max x a = NegInf \<or> is_nat_id (js_max x a)" by simp
  note ih = Cons.IH[OF xs m1]
  let ?r = "fold js_max xs (js_max x a)"
  from ih have r1: "?r = js_max x a \<or> ?r \<in> set xs"
    and r2: "js_le (js_max x a) ?r"
    and r3: "list_all (\<lambda>y. js_le y ?r) xs"
    by simp_all
  from m r2 have a_le: "js_le a ?r" and x_le: "js_le x ?r"
    using js_le_trans by blast+
  from m r1 have mem: "?r = a \<or> ?r \<in> set (x # xs)" by auto
  from mem a_le x_le r3 show ?case by simp
qed

lemma Math_max_ids:
  assumes "ids_ok ps"
  shows "\<exists>m. Math_max (map p_id ps) = Fin m \<and> 0 \<le> m \<and> m = of_int \<lfloor>m\<rfloor>
     \<and> list_all (\<lambda>p. js_le (p_id p) (Fin m)) ps"
proof -
  let ?xs = "map p_id ps"
  let ?r = "fold js_max ?xs NegInf"
  from assms have all: "list_all is_nat_id ?xs" and ne: "ps \<noteq> []"
    by (auto simp: ids_ok_def list_all_iff)
  have nonan: "NaN \<notin> set ?xs"
    using all by (auto simp: list_all_iff)
  from fold_js_max[OF all, of NegInf]
  have f: "?r = NegInf \<or> ?r \<in> set ?xs"
    and le: "list_all (\<lambda>x. js_le x ?r) ?xs"
    by auto
  from ne obtain p where p: "p \<in> set ps" by (cases ps) auto
  with all have "is_nat_id (p_id p)" by (auto simp: list_all_iff)
  then obtain q where q: "p_id p = Fin q" by (cases "p_id p") auto
  from le p have "js_le (p_id p) ?r" by (auto simp: list_all_iff)
  with q have "?r \<noteq> NegInf" by auto
  with f have "?r \<in> set ?xs" by simp
  with all have "is_nat_id ?r" unfolding list_all_iff by blast
  then obtain m where m: "?r = Fin m" "0 \<le> m" "m = of_int \<lfloor>m\<rfloor>"
    by (cases ?r) auto
  from le m(1) have "list_all (\<lambda>p. js_le (p_id p) (Fin m)) ps"
    by (simp add: list_all_iff)
  with m nonan show ?thesis
    by (auto simp: Math_max_def)
qed

lemma find_append_last:
  assumes "list_all (\<lambda>x. \<not> P x) xs" "P y"
  shows "find P (xs @ [y]) = Some y"
  using assms by (induction xs) auto

lemma mem_post_201:
  assumes "mem_post parse t raw ps = (res, ps')" "status res = 201"
  shows "\<exists>b name price category. parseBody parse raw = Inr b
     \<and> required_fields b = Some (name, price, category)
     \<and> ps' = ps @ [newProduct t b name price category ps]
     \<and> res = respond 201 [(''success'', JBool True),
                           (''data'', product_json (newProduct t b name price category ps))]"
  using assms
  by (auto simp: mem_post_def split: sum.splits option.splits prod.splits)

lemma newProduct_found:
  assumes "ids_ok ps"
  shows "\<exists>n. p_id (newProduct t b name price category ps) = Fin (of_nat n)
     \<and> mem_find n (ps @ [newProduct t b name price category ps])
         = Some (newProduct t b name price category ps)"
proof -
  from Math_max_ids[OF assms] obtain m where
    m: "Math_max (map p_id ps) = Fin m" "0 \<le> m" "m = of_int \<lfloor>m\<rfloor>"
    and le: "list_all (\<lambda>p. js_le (p_id p) (Fin m)) ps"
    by blast
  let ?p = "newProduct t b name price category ps"
  let ?n = "nat (\<lfloor>m\<rfloor> + 1)"
  have "0 \<le> \<lfloor>m\<rfloor>" using m by simp
  then have "(of_nat ?n :: rat) = of_int \<lfloor>m\<rfloor> + 1" by simp
  with m have n: "(of_nat ?n :: rat) = m + 1" by simp
  have ident: "p_id ?p = Fin (of_nat ?n)"
    using m n by (simp add: newProduct_def)
  have others: "list_all (\<lambda>p. \<not> js_eq (p_id p) (Fin (of_nat ?n))) ps"
    unfolding list_all_iff
  proof
    fix p assume "p \<in> set ps"
    with le have "js_le (p_id p) (Fin m)" by (auto simp: list_all_iff)
    then show "\<not> js_eq (p_id p) (Fin (of_nat ?n))"
      using n by (cases "p_id p") (auto simp: js_eq_def)
  qed
  have "js_eq (p_id ?p) (Fin (of_nat ?n))"
    using ident by (simp add: js_eq_def)
  from find_append_last[of "\<lambda>p. js_eq (p_id p) (Fin (of_nat ?n))" ps ?p, OF others this] ident
  show ?thesis
    unfolding mem_find_def by blast
qed

lemma ids_ok_sample: "ids_ok (sample_products t0)"
  by (simp add: ids_ok_def sample_products_def)

lemma ids_ok_mem_server:
  assumes "ids_ok ps"
  shows "ids_ok (snd (mem_server parse t req ps))"
proof -
  have new: "ids_ok (ps @ [newProduct t b name price category ps])" for b name price category
  proof -
    from newProduct_found[OF assms, of t b name price category] obtain n where
      "p_id (newProduct t b name price category ps) = Fin (of_nat n)" by blast
    with assms show ?thesis by (simp add: ids_ok_def)
  qed
  show ?thesis
    using assms new
    by (auto simp: mem_server_def mem_post_def split: option.splits sum.splits)
qed

subsection \<open>Creating and fetching a row\<close>

lemma createProduct_roundtrip:
  assumes "createProduct e d db = (Inr r, db')"
  shows "getProductById e (nat (r_id r)) db' = Inr (Some r)
     \<and> r_created_at r = now e \<and> r_updated_at r = now e"
proof -
  from createProduct_Inr[OF assms] have up: "pool_up e"
    and ins: "insert_row (now e) (b_name d) (or_empty (b_description d))
                (parseFloat_val (b_price d)) (b_category d)
                (js_or (parseInt (b_stock d)) (Fin 0)) db = (Inr r, db')"
    by simp_all
  from insert_row_Inr[OF ins] have tab: "products_table db' = products_table db @ [r]"
    and t: "r_created_at r = now e" "r_updated_at r = now e"
    and ident: "r_id r = int (products_id_seq db)"
    and fresh: "r_id r \<notin> set (map r_id (products_table db))"
    and range: "int4_range (r_id r)"
    by blast+
  from ident have nat_id: "int (nat (r_id r)) = r_id r" by simp
  from fresh have "filter (\<lambda>x. r_id x = r_id r) (products_table db) = []"
    unfolding filter_empty_conv by (metis image_eqI set_map)
  with tab have "filter (\<lambda>x. r_id x = r_id r) (products_table db') = [r]" by simp
  with up range nat_id t show ?thesis
    by (simp add: getProductById_def select_by_id_def first_row_def)
qed

subsection \<open>Error responses\<close>

text \<open>
  Every response with a status from 400 on is an error envelope, except the fallback
  response for an unmatched route.
\<close>

lemma is_error_envelope_respond [simp]:
  "is_error_envelope (respond c (error_envelope msg))"
  "is_error_envelope (internal_error e err)"
  by (simp_all add: is_error_envelope_def error_envelope_def internal_error_def)

lemma get_product_shape:
  "400 \<le> status (get_product e ident db) \<Longrightarrow> is_error_envelope (get_product e ident db)"
  by (auto simp: get_product_def split: sum.splits option.splits)

lemma get_stats_shape:
  "400 \<le> status (get_stats e db) \<Longrightarrow> is_error_envelope (get_stats e db)"
  by (auto simp: get_stats_def split: sum.splits)

lemma get_products_shape:
  "400 \<le> status (get_products e q db) \<Longrightarrow> is_error_envelope (get_products e q db)"
  by (auto simp: get_products_def split: sum.splits)

lemma delete_product_shape:
  "400 \<le> status (fst (delete_product e ident db))
   \<Longrightarrow> is_error_envelope (fst (delete_product e ident db))"
  by (auto simp: delete_product_def split: sum.splits option.splits prod.splits)

lemma put_product_shape:
  "400 \<le> status (fst (put_product e ident raw db))
   \<Longrightarrow> is_error_envelope (fst (put_product e ident raw db))"
  by (auto simp: put_product_def split: sum.splits option.splits prod.splits)

lemma post_product_shape:
  "400 \<le> status (fst (post_product e raw db))
   \<Longrightarrow> is_error_envelope (fst (post_product e raw db))"
  by (auto simp: post_product_def split: sum.splits option.splits prod.splits)

lemma server_error_shape:
  assumes "400 \<le> status (fst (server e req db))"
  shows "fst (server e req db) = route_not_found req
     \<or> is_error_envelope (fst (server e req db))"
  using assms
  by (auto simp: server_def health_def split: option.splits if_splits
      intro: get_product_shape get_stats_shape get_products_shape delete_product_shape
        put_product_shape post_product_shape)

lemma mem_server_error_shape:
  assumes "400 \<le> status (fst (mem_server parse t req ps))"
  shows "fst (mem_server parse t req ps) = route_not_found req
     \<or> is_error_envelope (fst (mem_server parse t req ps))"
  using assms
  by (auto simp: mem_server_def mem_list_def mem_get_def mem_post_def
      split: option.splits if_splits sum.splits)

lemma route_not_found_shape: "\<not> is_error_envelope (route_not_found req)"
  by (simp add: is_error_envelope_def route_not_found_def respond_def)

subsection \<open>The path of a product\<close>

text \<open>The decimal digits of an id are a path the route pattern matches, with that id.\<close>

lemma digit_char: "k < 10 \<Longrightarrow> is_digit (''0123456789'' ! k) \<and> digit_val (''0123456789'' ! k) = k"
proof -
  assume "k < 10"
  then have "k \<in> {0, 1, 2, 3, 4, 5, 6, 7, 8, 9}"
    by auto
  then show ?thesis
    by (auto simp: is_digit_def digit_val_def)
qed

lemma digits_val_snoc: "digits_val (ds @ [c]) = 10 * digits_val ds + digit_val c"
  by (simp add: digits_val_def)

lemma show_nat_digits:
  "show_nat n \<noteq> [] \<and> list_all is_digit (show_nat n) \<and> digits_val (show_nat n) = n"
proof (induction n rule: show_nat.induct)
  case (1 n)
  show ?case
  proof (cases "n < 10")
    case True
    with digit_char[of n] show ?thesis
      by (subst (1 2 3) show_nat.simps) (simp add: digits_val_def)
  next
    case False
    have m: "n mod 10 < 10" by simp
    from False "1.IH" have ih: "show_nat (n div 10) \<noteq> []"
      "list_all is_digit (show_nat (n div 10))" "digits_val (show_nat (n div 10)) = n div 10"
      by simp_all
    from False ih digit_char[OF m] show ?thesis
      by (subst (1 2 3) show_nat.simps) (simp add: digits_val_snoc)
  qed
qed

lemma id_route_show_nat:
  "id_route m (request_of m (''/api/products/'' @ show_nat n) raw) = Some n"
  using show_nat_digits[of n]
  by (simp add: id_route_def request_of_def productIdMatch_def parseInt_digits_def)

lemma path_show_nat:
  "''/api/products/'' @ show_nat n \<noteq> ''/health''
   \<and> ''/api/products/'' @ show_nat n \<noteq> ''/api/products/stats''
   \<and> ''/api/products/'' @ show_nat n \<noteq> ''/api/products''"
  using show_nat_digits[of n]
  by (auto simp: is_digit_def)

lemma server_get_by_id:
  "server e (request_of ''GET'' (''/api/products/'' @ show_nat n) raw) db
     = (get_product e n db, db)"
  using path_show_nat[of n] id_route_show_nat[of "''GET''" n raw]
  by (simp add: server_def) (simp add: request_of_def)

lemma mem_server_get_by_id:
  "mem_server parse t (request_of ''GET'' (''/api/products/'' @ show_nat n) raw) ps
     = (mem_get n ps, ps)"
  using path_show_nat[of n] id_route_show_nat[of "''GET''" n raw]
  by (simp add: mem_server_def) (simp add: request_of_def)

section \<open>Price and stock bounds (claim C1)\<close>




section \<open>An update without fields (claim C2)\<close>

text \<open>
  Claim C2, as amended. For every update call whose partial input contains none of the
  updatable fields (name, description, price, category, stock), the operation fails with
  an \<open>Error\<close> whose message is \<open>No fields to update\<close>, before any statement is sent,
  and the database is left completely unchanged; the PUT handler answers it with status
  400 and that message. (The claim as first stated spells the message
  \<open>no fields to update\<close>.)
\<close>

theorem update_without_fields_is_rejected:
  assumes "b_name d = None" "b_description d = None" "b_price d = None"
    "b_category d = None" "b_stock d = None"
  shows "updateProduct e ident d db = (Inl (Error ''No fields to update''), db)
     \<and> (parseBody (JSON_parse e) raw = Inr d \<longrightarrow>
          put_product e ident raw db = (respond 400 (error_envelope ''No fields to update''), db))"
  using assms
  by (simp add: updateProduct_def updates_empty_iff put_product_def invalid_price_def)

theorem update_without_fields_is_rejected_witness:
  "b_name empty_body = None \<and> b_description empty_body = None \<and> b_price empty_body = None
   \<and> b_category empty_body = None \<and> b_stock empty_body = None
   \<and> updateProduct (env_of None 7) 1 empty_body (seed_database 0)
       = (Inl (Error ''No fields to update''), seed_database 0)
   \<and> parseBody (JSON_parse (env_of None 7)) [] = Inr empty_body
   \<and> put_product (env_of None 7) 1 [] (seed_database 0)
       = (respond 400 (error_envelope ''No fields to update''), seed_database 0)"
proof -
  have h: "b_name empty_body = None" "b_description empty_body = None" "b_price empty_body = None"
    "b_category empty_body = None" "b_stock empty_body = None"
    by (simp_all add: empty_body_def)
  have p: "parseBody (JSON_parse (env_of None 7)) [] = Inr empty_body"
    by (simp add: parseBody_def)
  from update_without_fields_is_rejected[OF h, of "env_of None 7" 1 "seed_database 0" "[]"] h p
  show ?thesis by simp
qed

text \<open>The message of the claim as first stated is not the one thrown.\<close>

theorem update_message_counterexample:
  "fst (updateProduct (env_of None 7) 1 empty_body (seed_database 0))
     \<noteq> Inl (Error ''no fields to update'')"
  by (simp add: updateProduct_def updates_empty_iff empty_body_def)

section \<open>A POST with price 0 (claim C3)\<close>

text \<open>
  Claim C3, as amended. A POST to \<open>/api/products\<close> whose body has price equal to 0
  returns status 400 with an envelope \<open>{success: false, error: <string>}\<close> and creates
  no record, in both variants; in the in-memory variant, which has no separate check of
  the price's range, the error is \<open>Name, price, and category are required\<close>.
\<close>

theorem post_price_zero_is_rejected:
  assumes "http_method req = ''POST''" "pathname req = ''/api/products''"
    and "parseBody parse (body_text req) = Inr b" "b_price b = Some (JNumber (Fin 0))"
  shows "mem_server parse t req ps
       = (respond 400 (error_envelope ''Name, price, and category are required''), ps)
     \<and> (JSON_parse e = parse \<longrightarrow> (\<exists>msg. server e req db = (respond 400 (error_envelope msg), db)))"
  using assms
  by (auto simp: mem_server_def server_def id_route_def productIdMatch_def mem_post_def
      post_product_def required_fields_price_zero)

theorem post_price_zero_is_rejected_witness:
  "http_method (request_of ''POST'' ''/api/products'' ''{...}'') = ''POST''
   \<and> pathname (request_of ''POST'' ''/api/products'' ''{...}'') = ''/api/products''
   \<and> parseBody (\<lambda>s. Some (mouse\<lparr>b_price := Some (JNumber (Fin 0))\<rparr>))
        (body_text (request_of ''POST'' ''/api/products'' ''{...}''))
       = Inr (mouse\<lparr>b_price := Some (JNumber (Fin 0))\<rparr>)
   \<and> b_price (mouse\<lparr>b_price := Some (JNumber (Fin 0))\<rparr>) = Some (JNumber (Fin 0))
   \<and> mem_server (\<lambda>s. Some (mouse\<lparr>b_price := Some (JNumber (Fin 0))\<rparr>)) 7
        (request_of ''POST'' ''/api/products'' ''{...}'') (sample_products 0)
       = (respond 400 (error_envelope ''Name, price, and category are required''),
          sample_products 0)
   \<and> (\<exists>msg. server (env_of (Some (mouse\<lparr>b_price := Some (JNumber (Fin 0))\<rparr>)) 7)
        (request_of ''POST'' ''/api/products'' ''{...}'') (seed_database 0)
       = (respond 400 (error_envelope msg), seed_database 0))"
proof -
  have h: "http_method (request_of ''POST'' ''/api/products'' ''{...}'') = ''POST''"
    "pathname (request_of ''POST'' ''/api/products'' ''{...}'') = ''/api/products''"
    "parseBody (\<lambda>s. Some (mouse\<lparr>b_price := Some (JNumber (Fin 0))\<rparr>))
        (body_text (request_of ''POST'' ''/api/products'' ''{...}''))
       = Inr (mouse\<lparr>b_price := Some (JNumber (Fin 0))\<rparr>)"
    "b_price (mouse\<lparr>b_price := Some (JNumber (Fin 0))\<rparr>) = Some (JNumber (Fin 0))"
    by (simp_all add: request_of_def parseBody_def)
  have e: "JSON_parse (env_of (Some (mouse\<lparr>b_price := Some (JNumber (Fin 0))\<rparr>)) 7)
      = (\<lambda>s. Some (mouse\<lparr>b_price := Some (JNumber (Fin 0))\<rparr>))"
    by (simp add: env_of_def)
  from post_price_zero_is_rejected[OF h, of 7 "sample_products 0"
      "env_of (Some (mouse\<lparr>b_price := Some (JNumber (Fin 0))\<rparr>)) 7" "seed_database 0"] h e
  show ?thesis by simp
qed

text \<open>
  Where the claim as first stated fails: price 0 is falsy, so in both variants the
  presence test answers first and the error is not \<open>Price must be greater than 0\<close>.
\<close>

theorem post_price_zero_counterexample:
  "fst (mem_server (\<lambda>s. Some (mouse\<lparr>b_price := Some (JNumber (Fin 0))\<rparr>)) 7
         (request_of ''POST'' ''/api/products'' ''{...}'') (sample_products 0))
     = respond 400 (error_envelope ''Name, price, and category are required'')
   \<and> fst (server (env_of (Some (mouse\<lparr>b_price := Some (JNumber (Fin 0))\<rparr>)) 7)
         (request_of ''POST'' ''/api/products'' ''{...}'') (seed_database 0))
     = respond 400 (error_envelope ''Name, price, and category are required'')
   \<and> respond 400 (error_envelope ''Name, price, and category are required'')
     \<noteq> respond 400 (error_envelope ''Price must be greater than 0'')"
  by (simp add: mem_server_def server_def request_of_def id_route_def productIdMatch_def
      mem_post_def post_product_def parseBody_def required_fields_def mouse_def env_of_def
      respond_def error_envelope_def)

section \<open>Create, then fetch (claim C4)\<close>

text \<open>
  Claim C4, as amended. For every creation that succeeds, fetching the product by the
  returned id (service call, and GET \<open>/api/products/{id}\<close>) yields the created record,
  equal in every field, in both variants (in the
  in-memory variant for an array that satisfies \<open>ids_ok\<close>, as every array reached from
  the sample data does). In the persisted variant the created record carries both
  timestamps, and both are the time of the request. The in-memory record carries a
  creation timestamp only: it has no update timestamp.
\<close>

theorem create_then_fetch:
  "(createProduct e d db = (Inr r, db') \<longrightarrow>
      getProductById e (nat (r_id r)) db' = Inr (Some r)
      \<and> server e (request_of ''GET'' (''/api/products/'' @ show_nat (nat (r_id r))) []) db'
          = (respond 200 [(''success'', JBool True), (''data'', row_json r)], db')
      \<and> property (row_json r) ''created_at'' = Some (JTime (now e))
      \<and> property (row_json r) ''updated_at'' = Some (JTime (now e)))
   \<and> (mem_post parse t raw ps = (res, ps') \<and> status res = 201 \<and> ids_ok ps \<longrightarrow>
      (\<exists>p n. res = respond 201 [(''success'', JBool True), (''data'', product_json p)]
         \<and> p_id p = Fin (of_nat n)
         \<and> mem_find n ps' = Some p
         \<and> mem_server parse t' (request_of ''GET'' (''/api/products/'' @ show_nat n) []) ps'
             = (respond 200 [(''success'', JBool True), (''data'', product_json p)], ps')
         \<and> property (product_json p) ''createdAt'' = Some (JTime t)
         \<and> property (product_json p) ''updatedAt'' = None))"
proof (intro conjI impI)
  assume a: "createProduct e d db = (Inr r, db')"
  note rt = createProduct_roundtrip[OF a]
  from rt show "getProductById e (nat (r_id r)) db' = Inr (Some r)" by simp
  from rt show "server e (request_of ''GET'' (''/api/products/'' @ show_nat (nat (r_id r))) []) db'
          = (respond 200 [(''success'', JBool True), (''data'', row_json r)], db')"
    by (subst server_get_by_id) (simp add: get_product_def)
  from rt show "property (row_json r) ''created_at'' = Some (JTime (now e))"
    and "property (row_json r) ''updated_at'' = Some (JTime (now e))"
    by (simp_all add: row_json_def)
next
  assume a: "mem_post parse t raw ps = (res, ps') \<and> status res = 201 \<and> ids_ok ps"
  then have post: "mem_post parse t raw ps = (res, ps')" and st: "status res = 201"
    and ok: "ids_ok ps" by simp_all
  from mem_post_201[OF post st] obtain b name price category where
    ps': "ps' = ps @ [newProduct t b name price category ps]"
    and res: "res = respond 201 [(''success'', JBool True),
                           (''data'', product_json (newProduct t b name price category ps))]"
    by blast
  let ?p = "newProduct t b name price category ps"
  from newProduct_found[OF ok, of t b name price category] obtain n where
    n: "p_id ?p = Fin (of_nat n)" "mem_find n (ps @ [?p]) = Some ?p"
    by blast
  have c: "property (product_json ?p) ''createdAt'' = Some (JTime t)"
    "property (product_json ?p) ''updatedAt'' = None"
    by (simp_all add: product_json_def newProduct_def)
  from n ps' have g: "mem_server parse t' (request_of ''GET'' (''/api/products/'' @ show_nat n) []) ps'
      = (respond 200 [(''success'', JBool True), (''data'', product_json ?p)], ps')"
    by (subst mem_server_get_by_id) (simp add: mem_get_def)
  from res n ps' g c
  show "\<exists>p n. res = respond 201 [(''success'', JBool True), (''data'', product_json p)]
         \<and> p_id p = Fin (of_nat n)
         \<and> mem_find n ps' = Some p
         \<and> mem_server parse t' (request_of ''GET'' (''/api/products/'' @ show_nat n) []) ps'
             = (respond 200 [(''success'', JBool True), (''data'', product_json p)], ps')
         \<and> property (product_json p) ''createdAt'' = Some (JTime t)
         \<and> property (product_json p) ''updatedAt'' = None"
    by blast
qed

theorem create_then_fetch_witness:
  "(\<exists>r db'. createProduct (env_of None 7) mouse (seed_database 0) = (Inr r, db')
       \<and> r_id r = 9
       \<and> getProductById (env_of None 7) 9 db' = Inr (Some r))
   \<and> (\<exists>res ps'. mem_post (\<lambda>s. Some mouse) 7 ''{...}'' (sample_products 0) = (res, ps')
       \<and> status res = 201 \<and> ids_ok (sample_products 0)
       \<and> (\<exists>p n. p_id p = Fin (of_nat n) \<and> mem_find n ps' = Some p
            \<and> property (product_json p) ''updatedAt'' = None))"
proof -
  obtain r db' where h1: "createProduct (env_of None 7) mouse (seed_database 0) = (Inr r, db')"
    and i: "r_id r = 9"
    by (simp add: mouse_def env_of_def createProduct_def insert_row_def seed_database_def
        seed_row_def round2_example int4_range_def js_or_def varchar_short
        check_constraints_def Let_def)
  obtain res ps' where h2: "mem_post (\<lambda>s. Some mouse) 7 ''{...}'' (sample_products 0) = (res, ps')
      \<and> status res = 201 \<and> ids_ok (sample_products 0)"
    by (simp add: mem_post_def parseBody_def required_fields_def mouse_def ids_ok_sample)
  from create_then_fetch[THEN conjunct1, rule_format, OF h1] i
  have c1: "getProductById (env_of None 7) 9 db' = Inr (Some r)" by simp
  note c2 = create_then_fetch[THEN conjunct2, rule_format, OF h2]
  from h1 i c1 have p1: "\<exists>r db'. createProduct (env_of None 7) mouse (seed_database 0) = (Inr r, db')
       \<and> r_id r = 9
       \<and> getProductById (env_of None 7) 9 db' = Inr (Some r)" by blast
  from h2 c2 have p2: "\<exists>res ps'. mem_post (\<lambda>s. Some mouse) 7 ''{...}'' (sample_products 0) = (res, ps')
       \<and> status res = 201 \<and> ids_ok (sample_products 0)
       \<and> (\<exists>p n. p_id p = Fin (of_nat n) \<and> mem_find n ps' = Some p
            \<and> property (product_json p) ''updatedAt'' = None)" by blast
  from p1 p2 show ?thesis by simp
qed

text \<open>
  Where the claim as first stated fails: the record the in-memory POST handler creates
  and returns has no \<open>updatedAt\<close>.
\<close>

theorem in_memory_record_has_no_update_time:
  "mem_server (\<lambda>s. Some mouse) 7 (request_of ''POST'' ''/api/products'' ''{...}'')
       (sample_products 0)
     = (respond 201 [(''success'', JBool True),
          (''data'', JObj [(''id'', JNum (Fin 4)), (''name'', JStr ''Mouse''),
             (''description'', JStr []), (''price'', JNum (Fin (1999 / 100))),
             (''category'', JStr ''Accessories''), (''stock'', JNum (Fin 0)),
             (''createdAt'', JTime 7)])],
        sample_products 0 @ [\<lparr>p_id = Fin 4, p_name = ''Mouse'', p_description = [],
             p_price = Fin (1999 / 100), p_category = ''Accessories'', p_stock = Fin 0,
             p_createdAt = 7\<rparr>])
   \<and> property (JObj [(''id'', JNum (Fin 4)), (''name'', JStr ''Mouse''),
             (''description'', JStr []), (''price'', JNum (Fin (1999 / 100))),
             (''category'', JStr ''Accessories''), (''stock'', JNum (Fin 0)),
             (''createdAt'', JTime 7)]) ''updatedAt'' = None"
  by (simp add: mem_server_def request_of_def id_route_def productIdMatch_def
      mem_post_def parseBody_def required_fields_def newProduct_def product_json_def
      sample_products_def Math_max_def js_max_def js_or_def mouse_def)

section \<open>The frame of an update (claim C5)\<close>

text \<open>
  Claim C5. For every successful update, each product field that the partial input does
  not supply keeps the value it had (in the row the update found under that id), the id
  and the creation time are unchanged, and the update time is the time of the request.
  The row returned is the one now stored under the id, and rows of other ids are as they
  were. (An update succeeds only with a non-empty partial input.)
\<close>

theorem update_changes_only_supplied_fields:
  assumes "updateProduct e ident d db = (Inr (Some r'), db')"
  shows "\<exists>r. find (\<lambda>r. r_id r = int ident) (products_table db) = Some r
     \<and> r_id r' = r_id r
     \<and> r_created_at r' = r_created_at r
     \<and> r_updated_at r' = now e
     \<and> (b_name d = None \<longrightarrow> r_name r' = r_name r)
     \<and> (b_description d = None \<longrightarrow> r_description r' = r_description r)
     \<and> (b_price d = None \<longrightarrow> r_price r' = r_price r)
     \<and> (b_category d = None \<longrightarrow> r_category r' = r_category r)
     \<and> (b_stock d = None \<longrightarrow> r_stock r' = r_stock r)
     \<and> updateProduct_updates d \<noteq> []
     \<and> find (\<lambda>r. r_id r = int ident) (products_table db') = Some r'
     \<and> filter (\<lambda>r. r_id r \<noteq> int ident) (products_table db')
         = filter (\<lambda>r. r_id r \<noteq> int ident) (products_table db)"
proof -
  from updateProduct_Some[OF assms] obtain f r where
    f: "coerce_all (updateProduct_updates d) = Some f"
    and r: "find (\<lambda>r. r_id r = int ident) (products_table db) = Some r"
    and r': "r' = (f r)\<lparr>r_updated_at := now e\<rparr>"
    by blast
  have nonempty: "updateProduct_updates d \<noteq> []"
    using assms by (auto simp: updateProduct_def split: if_splits)
  show ?thesis
    using r r' coerce_all_frame[OF f, of r] updateProduct_stored[OF assms] nonempty by simp
qed

text \<open>The theorem at work: the stock of product 2 of the seeded table is set to 7.\<close>

theorem update_changes_only_supplied_fields_witness:
  "\<exists>r' db'. updateProduct (env_of None 100) 2 (empty_body\<lparr>b_stock := Some (JNumber (Fin 7))\<rparr>) (seed_database 0)
       = (Inr (Some r'), db')
     \<and> r_name r' = ''Wireless Headphones'' \<and> r_price r' = Fin (24999 / 100) \<and> r_stock r' = 7
     \<and> r_created_at r' = 0 \<and> r_updated_at r' = 100
     \<and> find (\<lambda>r. r_id r = 2) (products_table db') = Some r'"
proof -
  obtain r' db' where h:
    "updateProduct (env_of None 100) 2 (empty_body\<lparr>b_stock := Some (JNumber (Fin 7))\<rparr>) (seed_database 0)
       = (Inr (Some r'), db')" and s: "r_stock r' = 7"
    by (simp add: updateProduct_def updateProduct_updates_def update_rows_def
        seed_database_def seed_row_def env_of_def empty_body_def int4_range_def
        check_constraints_def first_row_def parseInt_rat_example)
  from update_changes_only_supplied_fields[OF h] h s show ?thesis
    by (auto simp: empty_body_def env_of_def seed_database_def seed_row_def)
qed

section \<open>The category filter of the persisted list (claim C6)\<close>

text \<open>
  Claim C6 says that every product a list call returns contains the category filter as
  a case-insensitive substring, in both variants. The persisted variant puts the filter
  between two \<open>%\<close> and matches with \<open>LIKE\<close>, without escaping the filter's own
  wildcards. With the filter \<open>_\<close> it returns every seeded row, none of whose
  categories contains an underscore; the in-memory variant returns nothing for that
  filter.
\<close>

theorem like_wildcard_in_category_filter:
  "getAllProducts (env_of None 7)
       \<lparr>q_category = Some ''_'', q_minPrice = None, q_maxPrice = None\<rparr> (seed_database 0)
     = Inr (products_table (seed_database 0))
   \<and> getAllProducts_params \<lparr>q_category = Some ''_'', q_minPrice = None, q_maxPrice = None\<rparr>
     = [PStr ''%_%'']
   \<and> \<not> str_includes (toLowerCase ''Electronics'') (toLowerCase ''_'')
   \<and> filteredProducts \<lparr>q_category = Some ''_'', q_minPrice = None, q_maxPrice = None\<rparr>
       (sample_products 0) = []"
  by (simp add: getAllProducts_def getAllProducts_clauses_def getAllProducts_params_def
      select_where_def env_of_def seed_database_def seed_row_def toLowerCase_def
      lower_char_def filteredProducts_def filter_category_def filter_minPrice_def
      filter_maxPrice_def sample_products_def)

section \<open>A PUT with price 0 (claim C7)\<close>

text \<open>
  Claim C7 says that every PUT whose body supplies a price \<open><= 0\<close> is rejected with a
  bad-request status before the update is applied. The handler's test is
  \<open>body.price && body.price <= 0\<close>, which a price of 0 does not pass: the update is
  sent to the database. For an id without a row the answer is 404, for an existing row
  the CHECK constraint fails the statement (400, \<open>Failed to update product\<close>); a
  negative price is rejected by the handler as the claim says.
\<close>

theorem put_price_zero_is_not_validated:
  "invalid_price (empty_body\<lparr>b_price := Some (JNumber (Fin 0))\<rparr>) = False
   \<and> server (env_of (Some (empty_body\<lparr>b_price := Some (JNumber (Fin 0))\<rparr>)) 7)
        (request_of ''PUT'' ''/api/products/999'' ''{...}'') (seed_database 0)
      = (respond 404 (error_envelope ''Product not found''), seed_database 0)
   \<and> server (env_of (Some (empty_body\<lparr>b_price := Some (JNumber (Fin 0))\<rparr>)) 7)
        (request_of ''PUT'' ''/api/products/2'' ''{...}'') (seed_database 0)
      = (respond 400 (error_envelope ''Failed to update product''), seed_database 0)
   \<and> server (env_of (Some (empty_body\<lparr>b_price := Some (JNumber (Fin (- 5)))\<rparr>)) 7)
        (request_of ''PUT'' ''/api/products/999'' ''{...}'') (seed_database 0)
      = (respond 400 (error_envelope ''Price must be greater than 0''), seed_database 0)"
  by (simp add: invalid_price_def empty_body_def server_def request_of_def id_route_def
      productIdMatch_def is_digit_def parseInt_digits_def digits_val_def digit_val_def
      put_product_def parseBody_def env_of_def updateProduct_def updateProduct_updates_def
      update_rows_def round2_zero int4_range_def truthy_val.simps seed_database_def seed_row_def
      check_constraints_def first_row_def)

section \<open>The command texts depend on presence only (claim C8)\<close>

text \<open>
  Claim C8, as amended. The SQL text built by the list operation depends only on which
  of the three filters are supplied with a non-empty value, and the SQL text built by the
  update operation only on which of the five fields are present, never on the values:
  two inputs that agree in this get the same text. Every value is in the list of bound
  parameters, which is spelled out. (A filter supplied as the empty string adds no
  condition, so the set of supplied filters alone does not fix the list's text.)
\<close>

theorem sql_text_depends_on_presence_only:
  "(truthy_str (q_category f) = truthy_str (q_category f')
      \<and> truthy_str (q_minPrice f) = truthy_str (q_minPrice f')
      \<and> truthy_str (q_maxPrice f) = truthy_str (q_maxPrice f')
     \<longrightarrow> getAllProducts_sql f = getAllProducts_sql f')
   \<and> ((b_name d = None) = (b_name d' = None)
      \<and> (b_description d = None) = (b_description d' = None)
      \<and> (b_price d = None) = (b_price d' = None)
      \<and> (b_category d = None) = (b_category d' = None)
      \<and> (b_stock d = None) = (b_stock d' = None)
     \<longrightarrow> updateProduct_sql d = updateProduct_sql d')
   \<and> getAllProducts_params f
       = if_truthy (q_category f) (\<lambda>c. PStr (''%'' @ c @ ''%''))
       @ if_truthy (q_minPrice f) (\<lambda>m. PNum (parseFloat m))
       @ if_truthy (q_maxPrice f) (\<lambda>m. PNum (parseFloat m))
   \<and> updateProduct_params ident d
       = if_defined (b_name d) PStr
       @ if_defined (b_description d) PStr
       @ if_defined (b_price d) (\<lambda>price. PNum (parseFloat_val (Some price)))
       @ if_defined (b_category d) PStr
       @ if_defined (b_stock d) (\<lambda>stock. PNum (parseInt (Some stock)))
       @ [PNum (Fin (of_nat ident))]"
proof (intro conjI impI)
  assume "truthy_str (q_category f) = truthy_str (q_category f')
      \<and> truthy_str (q_minPrice f) = truthy_str (q_minPrice f')
      \<and> truthy_str (q_maxPrice f) = truthy_str (q_maxPrice f')"
  then show "getAllProducts_sql f = getAllProducts_sql f'"
    by (simp add: select_sql_shape)
next
  assume "(b_name d = None) = (b_name d' = None)
      \<and> (b_description d = None) = (b_description d' = None)
      \<and> (b_price d = None) = (b_price d' = None)
      \<and> (b_category d = None) = (b_category d' = None)
      \<and> (b_stock d = None) = (b_stock d' = None)"
  then have "map column (updateProduct_updates d) = map column (updateProduct_updates d')"
    by (simp add: update_columns)
  then show "updateProduct_sql d = updateProduct_sql d'"
    unfolding updateProduct_sql_def by (rule update_sql_columns)
next
  show "getAllProducts_params f
       = if_truthy (q_category f) (\<lambda>c. PStr (''%'' @ c @ ''%''))
       @ if_truthy (q_minPrice f) (\<lambda>m. PNum (parseFloat m))
       @ if_truthy (q_maxPrice f) (\<lambda>m. PNum (parseFloat m))"
    by (cases "q_category f"; cases "q_minPrice f"; cases "q_maxPrice f")
       (simp_all add: getAllProducts_params_def getAllProducts_clauses_def)
next
  show "updateProduct_params ident d
       = if_defined (b_name d) PStr
       @ if_defined (b_description d) PStr
       @ if_defined (b_price d) (\<lambda>price. PNum (parseFloat_val (Some price)))
       @ if_defined (b_category d) PStr
       @ if_defined (b_stock d) (\<lambda>stock. PNum (parseInt (Some stock)))
       @ [PNum (Fin (of_nat ident))]"
    by (cases "b_name d"; cases "b_description d"; cases "b_price d"; cases "b_category d";
        cases "b_stock d")
       (simp_all add: updateProduct_params_def updateProduct_updates_def)
qed

text \<open>
  The theorem at work: a category filter that tries to close the string and add a
  condition gets the command text of any other category filter, and is passed as a
  parameter.
\<close>

theorem sql_text_depends_on_presence_only_witness:
  "truthy_str (q_category \<lparr>q_category = Some ''audio'', q_minPrice = None, q_maxPrice = None\<rparr>)
     = truthy_str (q_category
         \<lparr>q_category = Some (''x%'' @ [CHR 0x27] @ '') OR 1=1 --''), q_minPrice = None, q_maxPrice = None\<rparr>)
   \<and> getAllProducts_sql \<lparr>q_category = Some ''audio'', q_minPrice = None, q_maxPrice = None\<rparr>
     = getAllProducts_sql
         \<lparr>q_category = Some (''x%'' @ [CHR 0x27] @ '') OR 1=1 --''), q_minPrice = None, q_maxPrice = None\<rparr>
   \<and> (b_name (empty_body\<lparr>b_name := Some ''a'', b_price := Some (JNumber (Fin 5))\<rparr>) = None)
     = (b_name (empty_body\<lparr>b_name := Some ''b'', b_price := Some (JNumber (Fin 7))\<rparr>) = None)
   \<and> updateProduct_sql (empty_body\<lparr>b_name := Some ''a'', b_price := Some (JNumber (Fin 5))\<rparr>)
     = updateProduct_sql (empty_body\<lparr>b_name := Some ''b'', b_price := Some (JNumber (Fin 7))\<rparr>)
   \<and> updateProduct_params 3 (empty_body\<lparr>b_name := Some ''a'', b_price := Some (JNumber (Fin 5))\<rparr>)
     = [PStr ''a'', PNum (Fin 5), PNum (Fin 3)]"
proof -
  let ?f = "\<lparr>q_category = Some ''audio'', q_minPrice = None, q_maxPrice = None\<rparr>"
  let ?f' = "\<lparr>q_category = Some (''x%'' @ [CHR 0x27] @ '') OR 1=1 --''), q_minPrice = None,
              q_maxPrice = None\<rparr>"
  let ?d = "empty_body\<lparr>b_name := Some ''a'', b_price := Some (JNumber (Fin 5))\<rparr>"
  let ?d' = "empty_body\<lparr>b_name := Some ''b'', b_price := Some (JNumber (Fin 7))\<rparr>"
  have h1: "truthy_str (q_category ?f) = truthy_str (q_category ?f')
      \<and> truthy_str (q_minPrice ?f) = truthy_str (q_minPrice ?f')
      \<and> truthy_str (q_maxPrice ?f) = truthy_str (q_maxPrice ?f')"
    by simp
  have h2: "(b_name ?d = None) = (b_name ?d' = None)
      \<and> (b_description ?d = None) = (b_description ?d' = None)
      \<and> (b_price ?d = None) = (b_price ?d' = None)
      \<and> (b_category ?d = None) = (b_category ?d' = None)
      \<and> (b_stock ?d = None) = (b_stock ?d' = None)"
    by (simp add: empty_body_def)
  note t = sql_text_depends_on_presence_only[of ?f ?f' ?d ?d' 3]
  from t[THEN conjunct1, rule_format, OF h1]
    t[THEN conjunct2, THEN conjunct1, rule_format, OF h2]
    t[THEN conjunct2, THEN conjunct2, THEN conjunct2]
  show ?thesis
    by (simp add: empty_body_def)
qed

text \<open>
  Where the claim as first stated fails: two queries that both supply the category
  filter, one with the empty string, get different command texts.
\<close>

theorem sql_text_counterexample:
  "getAllProducts_sql \<lparr>q_category = Some [], q_minPrice = None, q_maxPrice = None\<rparr>
     \<noteq> getAllProducts_sql \<lparr>q_category = Some ''audio'', q_minPrice = None, q_maxPrice = None\<rparr>"
  by (simp add: getAllProducts_sql_def getAllProducts_clauses_def select_sql_def nl_def)

section \<open>The envelope of the fallback response (claim C9)\<close>

text \<open>
  Claim C9 says that every error response has the shape
  \<open>{success: false, error: <string>}\<close>, the response to an unmatched route included.
  In both variants the fallback writes \<open>{error, path, method}\<close>: it names the path
  and the method, and has no \<open>success\<close> property. Every other response with a
  status from 400 on has the shape (\<open>server_error_shape\<close>, \<open>mem_server_error_shape\<close>).
\<close>

theorem fallback_envelope_has_no_success_field:
  "server e (request_of ''GET'' ''/api/orders'' []) db
     = (respond 404 [(''error'', JStr ''Route not found''), (''path'', JStr ''/api/orders''),
                     (''method'', JStr ''GET'')], db)
   \<and> mem_server parse t (request_of ''GET'' ''/api/orders'' []) ps
     = (respond 404 [(''error'', JStr ''Route not found''), (''path'', JStr ''/api/orders''),
                     (''method'', JStr ''GET'')], ps)
   \<and> map_of [(''error'', JStr ''Route not found''), (''path'', JStr ''/api/orders''),
              (''method'', JStr ''GET'')] ''success'' = None
   \<and> \<not> is_error_envelope (fst (server e (request_of ''GET'' ''/api/orders'' []) db))
   \<and> \<not> is_error_envelope (fst (mem_server parse t (request_of ''GET'' ''/api/orders'' []) ps))"
  by (simp add: server_def mem_server_def request_of_def id_route_def productIdMatch_def
      route_not_found_def is_error_envelope_def)

section \<open>An empty body (claim C10)\<close>

text \<open>
  Claim C10, as amended. For every POST to \<open>/api/products\<close> (both variants) and every
  PUT to \<open>/api/products/{id}\<close> (persisted variant) whose body is the empty string, the
  body parser yields the empty object instead of a malformed-JSON error, so the response
  is the validation failure (400 with \<open>Name, price, and category are required\<close> for
  POST, 400 with \<open>No fields to update\<close> for PUT) and never the \<open>Invalid JSON\<close>
  bad-request. The in-memory variant has no PUT route: a PUT gets the fallback response
  for an unmatched route, and its body is not parsed.
\<close>

theorem empty_body_is_not_invalid_json:
  assumes "body_text req = []"
  shows "parseBody parse (body_text req) = Inr empty_body
     \<and> (http_method req = ''POST'' \<and> pathname req = ''/api/products'' \<longrightarrow>
          mem_server parse t req ps
            = (respond 400 (error_envelope ''Name, price, and category are required''), ps)
        \<and> server e req db
            = (respond 400 (error_envelope ''Name, price, and category are required''), db))
     \<and> (http_method req = ''PUT'' \<and> productIdMatch (pathname req) \<noteq> None \<longrightarrow>
          server e req db = (respond 400 (error_envelope ''No fields to update''), db)
        \<and> mem_server parse t req ps = (route_not_found req, ps))"
proof (intro conjI impI)
  show p: "parseBody parse (body_text req) = Inr empty_body"
    using assms by (simp add: parseBody_def)
  have pe: "parseBody (JSON_parse e) (body_text req) = Inr empty_body"
    using assms by (simp add: parseBody_def)
  {
    assume a: "http_method req = ''POST'' \<and> pathname req = ''/api/products''"
    then show "mem_server parse t req ps
        = (respond 400 (error_envelope ''Name, price, and category are required''), ps)"
      using p
      by (simp add: mem_server_def id_route_def productIdMatch_def mem_post_def
          required_fields_empty)
    from a show "server e req db
        = (respond 400 (error_envelope ''Name, price, and category are required''), db)"
      using pe
      by (simp add: server_def id_route_def productIdMatch_def post_product_def
          required_fields_empty)
  }
  {
    assume a: "http_method req = ''PUT'' \<and> productIdMatch (pathname req) \<noteq> None"
    then obtain ds where ds: "productIdMatch (pathname req) = Some ds" by auto
    note ne = productIdMatch_Some[OF ds]
    have u: "updateProduct e (parseInt_digits ds) empty_body db
        = (Inl (Error ''No fields to update''), db)"
      by (simp add: updateProduct_def updates_empty_iff empty_body_def)
    from a ds ne pe u show "server e req db = (respond 400 (error_envelope ''No fields to update''), db)"
      by (simp add: server_def id_route_def put_product_def invalid_price_def empty_body_def)
    from a ds ne show "mem_server parse t req ps = (route_not_found req, ps)"
      by (simp add: mem_server_def id_route_def)
  }
qed

theorem empty_body_is_not_invalid_json_witness:
  "body_text (request_of ''POST'' ''/api/products'' []) = []
   \<and> body_text (request_of ''PUT'' ''/api/products/2'' []) = []
   \<and> productIdMatch (pathname (request_of ''PUT'' ''/api/products/2'' [])) \<noteq> None
   \<and> mem_server (\<lambda>s. None) 7 (request_of ''POST'' ''/api/products'' []) (sample_products 0)
       = (respond 400 (error_envelope ''Name, price, and category are required''),
          sample_products 0)
   \<and> server (env_of None 7) (request_of ''POST'' ''/api/products'' []) (seed_database 0)
       = (respond 400 (error_envelope ''Name, price, and category are required''),
          seed_database 0)
   \<and> server (env_of None 7) (request_of ''PUT'' ''/api/products/2'' []) (seed_database 0)
       = (respond 400 (error_envelope ''No fields to update''), seed_database 0)"
proof -
  have h1: "body_text (request_of ''POST'' ''/api/products'' []) = []"
    and h2: "body_text (request_of ''PUT'' ''/api/products/2'' []) = []"
    and h3: "http_method (request_of ''POST'' ''/api/products'' []) = ''POST''
        \<and> pathname (request_of ''POST'' ''/api/products'' []) = ''/api/products''"
    and h4: "http_method (request_of ''PUT'' ''/api/products/2'' []) = ''PUT''
        \<and> productIdMatch (pathname (request_of ''PUT'' ''/api/products/2'' [])) \<noteq> None"
    by (simp_all add: request_of_def productIdMatch_def is_digit_def)
  note post = empty_body_is_not_invalid_json[OF h1, THEN conjunct2, THEN conjunct1, rule_format, OF h3]
  note put = empty_body_is_not_invalid_json[OF h2, THEN conjunct2, THEN conjunct2, rule_format, OF h4]
  from post[of "\<lambda>s. None" 7 "sample_products 0" "env_of None 7" "seed_database 0"]
    put[of "env_of None 7" "seed_database 0"] h1 h2 h4
  show ?thesis by simp
qed

text \<open>
  Where the claim as first stated fails: the in-memory variant answers a PUT with an
  empty body with 404, not with a validation failure.
\<close>

theorem put_in_memory_counterexample:
  "mem_server (\<lambda>s. None) 7 (request_of ''PUT'' ''/api/products/2'' []) (sample_products 0)
     = (respond 404 [(''error'', JStr ''Route not found''), (''path'', JStr ''/api/products/2''),
                     (''method'', JStr ''PUT'')], sample_products 0)"
  by (simp add: mem_server_def request_of_def id_route_def productIdMatch_def is_digit_def
      route_not_found_def)

end
